theory Spec2Isabelle
  imports Main
begin

section \<open>Question selection of the Living Legacy scoping application\<close>

text \<open>
  The development embeds \<^verbatim>\<open>generate_questions\<close> of \<^verbatim>\<open>question_bank.py\<close> together with
  the three module-level tables it reads and the follow-up question catalogue of
  \<^verbatim>\<open>legacy_data.py\<close>. Python strings are byte strings in UTF-8 (the dash U+2014 is the
  three bytes E2 80 94); the encoding is injective, so equality of strings is preserved.
\<close>

subsection \<open>Input and output data\<close>

text \<open>
  An answer stored under \<^verbatim>\<open>scoping_details\<close> is a list of labels (multiselect), a string
  (radio button or text input) or any other value, which the generator skips. The labels
  of a list are strings, as the multiselect widget returns them.
\<close>

datatype answer = AnsList "string list" | AnsStr string | AnsOther

text \<open>
  The project-data dict: only the two keys read by the generator are kept, each of them
  optional, since a dict may lack a key; the archetype name is a string. The items of
  \<^verbatim>\<open>scoping_details\<close> are listed in insertion order, which is the iteration order of a
  Python dict.
\<close>

record project_data =
  legacy_type :: "string option"
  scoping_details :: "(string \<times> answer) list option"

datatype error = KeyError string

text \<open>An \<^verbatim>\<open>OrderedDict\<close> from category names to question lists, as its items in order.\<close>

type_synonym ordered_dict = "(string \<times> string list) list"

subsection \<open>The catalogue of follow-up questions\<close>

datatype question_type = Radio | Multiselect | Text

text \<open>
  A follow-up question of \<^verbatim>\<open>LEGACY_TYPES\<close>. A text question has no \<^verbatim>\<open>options\<close> entry, which
  is the empty list here; icons, descriptions and placeholders are display data and are
  left out.
\<close>

record follow_up_question =
  key :: string
  question :: string
  qtype :: question_type
  options :: "string list"

subsection \<open>The static tables\<close>

text \<open>
  Dict literals are given as their items in declaration order. The keys of each table are
  distinct (lemmas \<open>distinct_keys_*\<close> below), so \<open>map_of\<close> on the items is the dict lookup.
\<close>

definition QUESTIONS_BY_CATEGORY :: "(string \<times> string list) list" where
  "QUESTIONS_BY_CATEGORY = [
    (''Childhood & Growing Up'',
      [''What is your earliest memory?'',
       ''Where did you grow up, and what was your neighborhood like?'',
       ''Describe the home you grew up in '' @ [CHR 0xE2, CHR 0x80, CHR 0x94] @ '' what did it look like, smell like, sound like?'',
       ''Who were the most important people in your childhood?'',
       ''What were your favorite games, toys, or ways to spend time as a kid?'',
       ''What was school like for you? Did you have a favorite teacher?'',
       ''What got you in trouble as a kid?'',
       ''What was dinnertime like in your family?'',
       ''What holidays or traditions did your family celebrate, and how?'',
       ''Was there a moment in your childhood that changed the direction of your life?'',
       ''What was the best summer you remember as a kid?'',
       ''What did you want to be when you grew up?'',
       ''What were your parents like when you were young?'',
       ''What music, TV shows, or movies do you remember from growing up?'',
       ''What was the hardest thing about being a kid in that era?'']),
    (''Family & Relationships'',
      [''How did you meet your spouse or life partner?'',
       ''What was your wedding day like?'',
       ''What's the secret to a lasting relationship, in your experience?'',
       ''What was it like becoming a parent for the first time?'',
       ''What's a favorite memory with each of your children?'',
       ''How would you describe your parenting style?'',
       ''What traditions have you created with your own family?'',
       ''What do you admire most about your parents?'',
       ''Tell me about a family challenge you overcame together.'',
       ''What do you most want your children or grandchildren to know about you?'',
       ''Is there a family recipe, song, or saying that's been passed down?'',
       ''What has being a grandparent meant to you?'',
       ''Describe a perfect ordinary day with your family.'',
       ''What's the funniest thing that ever happened in your family?'',
       ''Who in your extended family had the biggest impact on you?'']),
    (''Career & Professional Life'',
      [''What was your very first job?'',
       ''How did you end up in the career or industry you spent your life in?'',
       ''Who was the most influential mentor in your professional life?'',
       ''What accomplishment are you most proud of professionally?'',
       ''Tell me about a time you failed at work and what you learned from it.'',
       ''How did your career change you as a person?'',
       ''What was the biggest risk you took professionally?'',
       ''What was the hardest decision you ever made at work?'',
       ''What leadership lesson took you the longest to learn?'',
       ''If you could give one piece of career advice to a young person, what would it be?'',
       ''How did you handle the balance between work and family?'',
       ''What do you think your colleagues would say about you?'',
       ''What industry changes did you witness during your career?'',
       ''Describe the moment you knew it was time to retire or move on.'',
       ''What legacy did you leave at the place you worked the longest?'']),
    (''Values & Life Lessons'',
      [''What values were you raised with that you still hold today?'',
       ''What's the most important lesson life has taught you?'',
       ''What do you know now that you wish you'd known at 20?'',
       ''What does 'success' mean to you '' @ [CHR 0xE2, CHR 0x80, CHR 0x94] @ '' has that definition changed?'',
       ''What advice would you give about handling money?'',
       ''How do you define a good life?'',
       ''What's the best advice anyone ever gave you?'',
       ''What's a mistake you made that taught you something valuable?'',
       ''How do you handle disagreements or conflict?'',
       ''What does courage mean to you? When have you had to be courageous?'',
       ''How do you decide what's right when the answer isn't clear?'',
       ''What's worth fighting for?'',
       ''If you could write a letter to your younger self, what would it say?'',
       ''What keeps you going when life gets hard?'',
       ''What do you hope people learn from your life?'']),
    (''Faith & Spirituality'',
      [''How would you describe your relationship with faith or spirituality?'',
       ''Were you raised in a religious tradition? How did that shape you?'',
       ''Was there a defining moment in your spiritual life?'',
       ''How has your faith helped you through difficult times?'',
       ''Have you ever had doubts? How did you work through them?'',
       ''What spiritual practices are most meaningful to you?'',
       ''Is there a scripture, prayer, or saying that guides your life?'',
       ''Who has been a spiritual mentor or model for you?'',
       ''How has your faith changed or deepened over the years?'',
       ''What do you hope to pass down about your faith?'',
       ''Describe a moment you felt truly at peace.'',
       ''How does your faith community matter to you?'']),
    (''Military & Service'',
      [''Why did you join the military / enter service?'',
       ''What was basic training like?'',
       ''Where were you stationed, and what was life like there?'',
       ''Tell me about the people you served with '' @ [CHR 0xE2, CHR 0x80, CHR 0x94] @ '' who stands out?'',
       ''What was your most meaningful experience during your service?'',
       ''How did military life affect your family?'',
       ''Was there a moment that tested everything you had?'',
       ''What did you learn about leadership in the military?'',
       ''How did you transition back to civilian life?'',
       ''Is there a fallen comrade you'd like to honor or remember?'',
       ''What do civilians most misunderstand about military life?'',
       ''How did your service shape the person you became?'',
       ''What's the funniest thing that happened during your service?'',
       ''If you could talk to a young person considering enlisting, what would you say?'']),
    (''Adventures & Experiences'',
      [''What's the greatest adventure you've ever had?'',
       ''Where is the most memorable place you've ever traveled?'',
       ''Tell me about a time you stepped completely outside your comfort zone.'',
       ''What's the most spontaneous thing you've ever done?'',
       ''Is there an experience that fundamentally changed how you see the world?'',
       ''What's a hobby or passion that has brought you the most joy?'',
       ''Describe a perfect day doing something you love.'',
       ''What's a risk you took that paid off '' @ [CHR 0xE2, CHR 0x80, CHR 0x94] @ '' or didn't?'',
       ''Tell me about a time you were truly awestruck.'',
       ''What's on your bucket list that you still hope to do?'']),
    (''Health & Resilience'',
      [''Have you faced a serious health challenge? How did you cope?'',
       ''What kept you strong during the hardest period of your life?'',
       ''How did your family support you through a difficult time?'',
       ''What did you learn about yourself through adversity?'',
       ''Has a loss or hardship changed your perspective on life?'',
       ''What advice would you give someone going through something similar?'',
       ''How do you take care of your mental and emotional health?'',
       ''Who or what gave you hope when things looked dark?'']),
    (''Cultural Heritage & Traditions'',
      [''What is your cultural or ethnic heritage?'',
       ''What traditions from your culture are most important to you?'',
       ''Are there family customs you'd like to see continue?'',
       ''What language(s) were spoken in your home growing up?'',
       ''Tell me about a food or recipe that connects you to your heritage.'',
       ''What cultural values were instilled in you?'',
       ''How has your heritage shaped your identity?'',
       ''Is there a family history or origin story that's been passed down?'']),
    (''Reflection & Legacy'',
      [''When you look back on your life, what are you most grateful for?'',
       ''What are you most proud of?'',
       ''Is there anything you wish you'd done differently?'',
       ''What do you want people to remember about you?'',
       ''If you could live one day over again, which would it be and why?'',
       ''What brings you the most joy right now?'',
       ''What does the word 'legacy' mean to you?'',
       ''What message would you like to leave for future generations?'',
       ''How would you like to be remembered by those who knew you best?'',
       ''If you had one more thing to say to the people you love, what would it be?''])
  ]"

definition LEGACY_TYPE_CATEGORIES :: "(string \<times> string list) list" where
  "LEGACY_TYPE_CATEGORIES = [
    (''Full Life Story'',
      [''Childhood & Growing Up'',
       ''Family & Relationships'',
       ''Career & Professional Life'',
       ''Values & Life Lessons'',
       ''Adventures & Experiences'',
       ''Reflection & Legacy'']),
    (''Words of Wisdom'',
      [''Values & Life Lessons'',
       ''Reflection & Legacy'']),
    (''Growing Up'',
      [''Childhood & Growing Up'',
       ''Cultural Heritage & Traditions'']),
    (''Professional Life: My Career'',
      [''Career & Professional Life'',
       ''Values & Life Lessons'']),
    (''Love & Family'',
      [''Family & Relationships'',
       ''Reflection & Legacy'']),
    (''Military & Service'',
      [''Military & Service'',
       ''Values & Life Lessons'',
       ''Reflection & Legacy'']),
    (''Faith & Spiritual Journey'',
      [''Faith & Spirituality'',
       ''Values & Life Lessons'',
       ''Reflection & Legacy'']),
    (''A Specific Chapter'',
      [''Adventures & Experiences'',
       ''Health & Resilience'',
       ''Reflection & Legacy''])
  ]"

definition THEME_TO_CATEGORY :: "(string \<times> string) list" where
  "THEME_TO_CATEGORY = [
    (''Family & Relationships'', ''Family & Relationships''),
    (''Career & Professional Life'', ''Career & Professional Life''),
    (''Education & Learning'', ''Childhood & Growing Up''),
    (''Travel & Adventures'', ''Adventures & Experiences''),
    (''Faith & Spirituality'', ''Faith & Spirituality''),
    (''Health & Overcoming Challenges'', ''Health & Resilience''),
    (''Hobbies & Passions'', ''Adventures & Experiences''),
    (''Community & Volunteering'', ''Cultural Heritage & Traditions''),
    (''Military Service'', ''Military & Service''),
    (''Cultural Heritage & Traditions'', ''Cultural Heritage & Traditions''),
    (''Life lessons & general advice'', ''Values & Life Lessons''),
    (''Relationship & marriage wisdom'', ''Family & Relationships''),
    (''Parenting insights'', ''Family & Relationships''),
    (''Career & professional guidance'', ''Career & Professional Life''),
    (''Financial lessons learned'', ''Values & Life Lessons''),
    (''Health & wellness advice'', ''Health & Resilience''),
    (''Faith & spiritual guidance'', ''Faith & Spirituality''),
    (''Dealing with adversity & resilience'', ''Health & Resilience''),
    (''Happiness & finding purpose'', ''Values & Life Lessons''),
    (''Mistakes I learned from'', ''Values & Life Lessons''),
    (''Family life & home'', ''Family & Relationships''),
    (''Neighborhood & community'', ''Cultural Heritage & Traditions''),
    (''School days & friendships'', ''Childhood & Growing Up''),
    (''Cultural traditions & holidays'', ''Cultural Heritage & Traditions''),
    (''Pivotal moments & turning points'', ''Values & Life Lessons''),
    (''Games, toys & entertainment of the era'', ''Childhood & Growing Up''),
    (''Food, meals & family recipes'', ''Cultural Heritage & Traditions''),
    (''Summer vacations & adventures'', ''Adventures & Experiences''),
    (''Challenges & how I overcame them'', ''Health & Resilience''),
    (''The historical era I grew up in'', ''Cultural Heritage & Traditions''),
    (''How I got started & early career'', ''Career & Professional Life''),
    (''Mentors & people who shaped my path'', ''Career & Professional Life''),
    (''Major accomplishments & proud moments'', ''Career & Professional Life''),
    (''Failures, setbacks & what I learned'', ''Health & Resilience''),
    (''Leadership philosophy & management style'', ''Career & Professional Life''),
    (''Industry changes I witnessed or drove'', ''Career & Professional Life''),
    (''Work-life balance & sacrifices'', ''Family & Relationships''),
    (''Advice for the next generation in my field'', ''Values & Life Lessons''),
    (''The legacy I left at my workplace'', ''Reflection & Legacy''),
    (''Transition to retirement'', ''Reflection & Legacy''),
    (''My love story / marriage'', ''Family & Relationships''),
    (''Being a parent'', ''Family & Relationships''),
    (''Being a grandparent'', ''Family & Relationships''),
    (''My parents & the family I came from'', ''Family & Relationships''),
    (''Siblings & extended family'', ''Family & Relationships''),
    (''Lifelong friendships'', ''Family & Relationships''),
    (''Chosen family & community bonds'', ''Cultural Heritage & Traditions''),
    (''How we met / how it all began'', ''Family & Relationships''),
    (''Traditions & rituals we built together'', ''Cultural Heritage & Traditions''),
    (''Challenges we faced & overcame'', ''Health & Resilience''),
    (''Everyday moments that defined us'', ''Family & Relationships''),
    (''Lessons I learned about love & commitment'', ''Values & Life Lessons''),
    (''Funny stories & inside jokes'', ''Family & Relationships''),
    (''What I want them to know'', ''Reflection & Legacy''),
    (''Basic training & early days'', ''Military & Service''),
    (''Deployments & duty stations'', ''Military & Service''),
    (''Combat experiences'', ''Military & Service''),
    (''Brotherhood & camaraderie'', ''Military & Service''),
    (''Leadership & lessons learned'', ''Values & Life Lessons''),
    (''Impact on family & home life'', ''Family & Relationships''),
    (''Transition to civilian life'', ''Military & Service''),
    (''How service shaped who I am'', ''Reflection & Legacy''),
    (''Honoring fallen comrades'', ''Military & Service''),
    (''Funny stories & lighter moments'', ''Military & Service''),
    (''Foundational beliefs & values'', ''Faith & Spirituality''),
    (''Key moments of spiritual growth'', ''Faith & Spirituality''),
    (''How faith carried me through hard times'', ''Faith & Spirituality''),
    (''Community & fellowship'', ''Cultural Heritage & Traditions''),
    (''Doubts, questions & honest wrestling'', ''Faith & Spirituality''),
    (''Prayers that were answered'', ''Faith & Spirituality''),
    (''Spiritual mentors & teachers'', ''Faith & Spirituality''),
    (''Faith traditions I want to pass down'', ''Faith & Spirituality''),
    (''How my faith evolved over time'', ''Faith & Spirituality''),
    (''It changed who I am'', ''Reflection & Legacy''),
    (''It's a story my family should know'', ''Family & Relationships''),
    (''It involved incredible people'', ''Family & Relationships''),
    (''It was an adventure or unique experience'', ''Adventures & Experiences''),
    (''I overcame something difficult'', ''Health & Resilience''),
    (''It shaped my values or beliefs'', ''Values & Life Lessons''),
    (''It's a piece of history'', ''Cultural Heritage & Traditions''),
    (''It's simply a great story'', ''Adventures & Experiences'')
  ]"

definition LEGACY_TYPES :: "(string \<times> follow_up_question list) list" where
  "LEGACY_TYPES = [
    (''Full Life Story'',
      [
       \<lparr>key = ''time_depth'',
        question = ''How far back would you like to go?'',
        qtype = Radio,
        options = [''As far back as I can remember'',
          ''Starting from my teenage years'',
          ''Starting from adulthood'']\<rparr>,
       \<lparr>key = ''themes'',
        question = ''Which life themes are most important to include? (Select all that apply)'',
        qtype = Multiselect,
        options = [''Family & Relationships'',
          ''Career & Professional Life'',
          ''Education & Learning'',
          ''Travel & Adventures'',
          ''Faith & Spirituality'',
          ''Health & Overcoming Challenges'',
          ''Hobbies & Passions'',
          ''Community & Volunteering'',
          ''Military Service'',
          ''Cultural Heritage & Traditions'']\<rparr>,
       \<lparr>key = ''tone'',
        question = ''What tone or feel should the story have?'',
        qtype = Radio,
        options = [''Warm and conversational '' @ [CHR 0xE2, CHR 0x80, CHR 0x94] @ '' like sitting on the porch together'',
          ''Reflective and thoughtful '' @ [CHR 0xE2, CHR 0x80, CHR 0x94] @ '' lessons learned along the way'',
          ''Celebratory and uplifting '' @ [CHR 0xE2, CHR 0x80, CHR 0x94] @ '' highlighting the best moments'',
          ''Honest and raw '' @ [CHR 0xE2, CHR 0x80, CHR 0x94] @ '' the full truth, good and hard'']\<rparr>,
       \<lparr>key = ''estimated_length'',
        question = ''How extensive should the final piece be?'',
        qtype = Radio,
        options = [''A concise overview (10-20 pages / 30-60 min of audio)'',
          ''A detailed narrative (50-100 pages / 2-4 hours of audio)'',
          ''A comprehensive memoir (100+ pages / 5+ hours of audio)'']\<rparr>]),
    (''Words of Wisdom'',
      [
       \<lparr>key = ''wisdom_topics'',
        question = ''What areas of wisdom would you like to share? (Select all that apply)'',
        qtype = Multiselect,
        options = [''Life lessons & general advice'',
          ''Relationship & marriage wisdom'',
          ''Parenting insights'',
          ''Career & professional guidance'',
          ''Financial lessons learned'',
          ''Health & wellness advice'',
          ''Faith & spiritual guidance'',
          ''Dealing with adversity & resilience'',
          ''Happiness & finding purpose'',
          ''Mistakes I learned from'']\<rparr>,
       \<lparr>key = ''format_pref'',
        question = ''How would you like the wisdom presented?'',
        qtype = Radio,
        options = [''Short, memorable sayings and principles'',
          ''Stories that illustrate each lesson'',
          ''Letters addressed to specific people'',
          ''A mix of stories, advice, and reflections'']\<rparr>,
       \<lparr>key = ''tone'',
        question = ''What tone feels right?'',
        qtype = Radio,
        options = [''Gentle and encouraging'',
          ''Direct and no-nonsense'',
          ''Humorous and lighthearted'',
          ''Deeply personal and heartfelt'']\<rparr>]),
    (''Growing Up'',
      [
       \<lparr>key = ''era_focus'',
        question = ''Which period would you like to focus on most?'',
        qtype = Radio,
        options = [''Early childhood (birth to age 10)'',
          ''Pre-teen and teenage years (10-18)'',
          ''The full span of growing up (birth through leaving home)'']\<rparr>,
       \<lparr>key = ''growing_up_themes'',
        question = ''What aspects of growing up are most important to capture? (Select all that apply)'',
        qtype = Multiselect,
        options = [''Family life & home'',
          ''Neighborhood & community'',
          ''School days & friendships'',
          ''Cultural traditions & holidays'',
          ''Pivotal moments & turning points'',
          ''Games, toys & entertainment of the era'',
          ''Food, meals & family recipes'',
          ''Summer vacations & adventures'',
          ''Challenges & how I overcame them'',
          ''The historical era I grew up in'']\<rparr>,
       \<lparr>key = ''setting_detail'',
        question = ''How important is it to paint a picture of the time and place?'',
        qtype = Radio,
        options = [''Very important '' @ [CHR 0xE2, CHR 0x80, CHR 0x94] @ '' I want readers to feel like they're there'',
          ''Somewhat '' @ [CHR 0xE2, CHR 0x80, CHR 0x94] @ '' mention key details but focus on the stories'',
          ''Not very '' @ [CHR 0xE2, CHR 0x80, CHR 0x94] @ '' the stories and people matter most'']\<rparr>]),
    (''Professional Life: My Career'',
      [
       \<lparr>key = ''career_scope'',
        question = ''What part of your career would you like to focus on?'',
        qtype = Radio,
        options = [''My entire career arc, start to finish'',
          ''A specific role or company that defined me'',
          ''A particular industry or field I worked in'',
          ''My entrepreneurial journey / business I built'']\<rparr>,
       \<lparr>key = ''career_themes'',
        question = ''Which professional themes matter most? (Select all that apply)'',
        qtype = Multiselect,
        options = [''How I got started & early career'',
          ''Mentors & people who shaped my path'',
          ''Major accomplishments & proud moments'',
          ''Failures, setbacks & what I learned'',
          ''Leadership philosophy & management style'',
          ''Industry changes I witnessed or drove'',
          ''Work-life balance & sacrifices'',
          ''Advice for the next generation in my field'',
          ''The legacy I left at my workplace'',
          ''Transition to retirement'']\<rparr>,
       \<lparr>key = ''detail_level'',
        question = ''How technical or detailed should the career story be?'',
        qtype = Radio,
        options = [''Keep it accessible '' @ [CHR 0xE2, CHR 0x80, CHR 0x94] @ '' anyone should be able to enjoy it'',
          ''Some industry detail '' @ [CHR 0xE2, CHR 0x80, CHR 0x94] @ '' for people familiar with my field'',
          ''In-depth '' @ [CHR 0xE2, CHR 0x80, CHR 0x94] @ '' a record for professionals and colleagues'']\<rparr>]),
    (''Love & Family'',
      [
       \<lparr>key = ''relationship_focus'',
        question = ''Which relationships would you like to focus on? (Select all that apply)'',
        qtype = Multiselect,
        options = [''My love story / marriage'',
          ''Being a parent'',
          ''Being a grandparent'',
          ''My parents & the family I came from'',
          ''Siblings & extended family'',
          ''Lifelong friendships'',
          ''Chosen family & community bonds'']\<rparr>,
       \<lparr>key = ''family_themes'',
        question = ''What aspects of these relationships matter most? (Select all that apply)'',
        qtype = Multiselect,
        options = [''How we met / how it all began'',
          ''Traditions & rituals we built together'',
          ''Challenges we faced & overcame'',
          ''Everyday moments that defined us'',
          ''Lessons I learned about love & commitment'',
          ''Funny stories & inside jokes'',
          ''What I want them to know'']\<rparr>,
       \<lparr>key = ''tone'',
        question = ''What tone feels right for these stories?'',
        qtype = Radio,
        options = [''Romantic and sentimental'',
          ''Warm and down-to-earth'',
          ''Funny and affectionate'',
          ''Deeply honest '' @ [CHR 0xE2, CHR 0x80, CHR 0x94] @ '' the real story'']\<rparr>]),
    (''Military & Service'',
      [
       \<lparr>key = ''service_scope'',
        question = ''What branch and era of service?'',
        qtype = Text,
        options = []\<rparr>,
       \<lparr>key = ''service_themes'',
        question = ''Which aspects of your service are most important to capture? (Select all that apply)'',
        qtype = Multiselect,
        options = [''Basic training & early days'',
          ''Deployments & duty stations'',
          ''Combat experiences'',
          ''Brotherhood & camaraderie'',
          ''Leadership & lessons learned'',
          ''Impact on family & home life'',
          ''Transition to civilian life'',
          ''How service shaped who I am'',
          ''Honoring fallen comrades'',
          ''Funny stories & lighter moments'']\<rparr>,
       \<lparr>key = ''sensitivity'',
        question = ''Are there aspects of your service you'd prefer to keep private?'',
        qtype = Radio,
        options = [''I'm an open book '' @ [CHR 0xE2, CHR 0x80, CHR 0x94] @ '' capture it all'',
          ''Some topics are off-limits '' @ [CHR 0xE2, CHR 0x80, CHR 0x94] @ '' I'll let you know as we go'',
          ''I'd like to focus on the positive and skip the difficult parts'']\<rparr>]),
    (''Faith & Spiritual Journey'',
      [
       \<lparr>key = ''faith_scope'',
        question = ''What best describes your spiritual journey?'',
        qtype = Radio,
        options = [''Lifelong faith in one tradition'',
          ''A journey across different beliefs or denominations'',
          ''Coming to faith later in life'',
          ''A spiritual but not religious path'',
          ''A complex relationship with faith'']\<rparr>,
       \<lparr>key = ''faith_themes'',
        question = ''What aspects of your faith journey matter most? (Select all that apply)'',
        qtype = Multiselect,
        options = [''Foundational beliefs & values'',
          ''Key moments of spiritual growth'',
          ''How faith carried me through hard times'',
          ''Community & fellowship'',
          ''Doubts, questions & honest wrestling'',
          ''Prayers that were answered'',
          ''Spiritual mentors & teachers'',
          ''Faith traditions I want to pass down'',
          ''How my faith evolved over time'']\<rparr>]),
    (''A Specific Chapter'',
      [
       \<lparr>key = ''chapter_description'',
        question = ''Briefly describe the chapter or experience you want to capture:'',
        qtype = Text,
        options = []\<rparr>,
       \<lparr>key = ''chapter_timeframe'',
        question = ''Roughly how long did this chapter span?'',
        qtype = Radio,
        options = [''A single event or moment'',
          ''Days to weeks'',
          ''Months'',
          ''A year or two'',
          ''Several years'']\<rparr>,
       \<lparr>key = ''chapter_themes'',
        question = ''What makes this chapter worth preserving? (Select all that apply)'',
        qtype = Multiselect,
        options = [''It changed who I am'',
          ''It's a story my family should know'',
          ''It involved incredible people'',
          ''It was an adventure or unique experience'',
          ''I overcame something difficult'',
          ''It shaped my values or beliefs'',
          ''It's a piece of history'',
          ''It's simply a great story'']\<rparr>])
  ]"

subsection \<open>The generator\<close>

text \<open>
  \<^verbatim>\<open>mapped = THEME_TO_CATEGORY.get(theme)\<close> followed by
  \<^verbatim>\<open>if mapped and mapped not in categories: categories.append(mapped)\<close>.
  A string is truthy when it is not empty.
\<close>

definition append_mapped :: "(string \<times> string) list \<Rightarrow> string list \<Rightarrow> string \<Rightarrow> string list" where
  "append_mapped ttc categories theme =
     (case map_of ttc theme of
        None \<Rightarrow> categories
      | Some mapped \<Rightarrow>
          if mapped \<noteq> [] \<and> mapped \<notin> set categories then categories @ [mapped]
          else categories)"

text \<open>The inner loop \<^verbatim>\<open>for theme in answer\<close>.\<close>

fun scan_themes :: "(string \<times> string) list \<Rightarrow> string list \<Rightarrow> string list \<Rightarrow> string list" where
  "scan_themes ttc categories [] = categories"
| "scan_themes ttc categories (theme # rest) =
     scan_themes ttc (append_mapped ttc categories theme) rest"

text \<open>The body of the outer loop: the \<^verbatim>\<open>isinstance\<close> chain on one answer.\<close>

fun scan_answer :: "(string \<times> string) list \<Rightarrow> string list \<Rightarrow> answer \<Rightarrow> string list" where
  "scan_answer ttc categories (AnsList themes) = scan_themes ttc categories themes"
| "scan_answer ttc categories (AnsStr s) = append_mapped ttc categories s"
| "scan_answer ttc categories AnsOther = categories"

text \<open>The outer loop \<^verbatim>\<open>for _question_text, answer in scoping.items()\<close>.\<close>

fun scan_scoping :: "(string \<times> string) list \<Rightarrow> string list \<Rightarrow> (string \<times> answer) list \<Rightarrow> string list" where
  "scan_scoping ttc categories [] = categories"
| "scan_scoping ttc categories ((question_text, answer) # rest) =
     scan_scoping ttc (scan_answer ttc categories answer) rest"

text \<open>
  \<^verbatim>\<open>result[cat] = v\<close> on an ordered dict: an existing key keeps its position and gets the new
  value, a new key goes to the end.
\<close>

fun od_set :: "('k \<times> 'v) list \<Rightarrow> 'k \<Rightarrow> 'v \<Rightarrow> ('k \<times> 'v) list" where
  "od_set [] k v = [(k, v)]"
| "od_set ((k', v') # rest) k v =
     (if k' = k then (k', v) # rest else (k', v') # od_set rest k v)"

text \<open>The last loop, \<^verbatim>\<open>for cat in categories\<close>, with the result built so far.\<close>

fun assemble :: "(string \<times> string list) list \<Rightarrow> ordered_dict \<Rightarrow> string list \<Rightarrow> ordered_dict" where
  "assemble qbc result [] = result"
| "assemble qbc result (cat # rest) =
     (let questions = (case map_of qbc cat of None \<Rightarrow> [] | Some qs \<Rightarrow> qs)
      in if questions \<noteq> [] then assemble qbc (od_set result cat questions) rest
         else assemble qbc result rest)"

definition closing_category :: string where
  "closing_category = ''Reflection & Legacy''"

text \<open>
  The category list before the questions are assembled: the copy of the defaults, the
  expansion by the scoping answers, and the closing category appended when absent.
\<close>

definition select_categories ::
  "(string \<times> string list) list \<Rightarrow> (string \<times> string) list \<Rightarrow> string \<Rightarrow> (string \<times> answer) list option
     \<Rightarrow> string list" where
  "select_categories ltc ttc lt sd =
     (let categories = (case map_of ltc lt of None \<Rightarrow> [] | Some defaults \<Rightarrow> defaults);
          scoping = (case sd of None \<Rightarrow> [] | Some items \<Rightarrow> items);
          categories = scan_scoping ttc categories scoping
      in if closing_category \<notin> set categories then categories @ [closing_category]
         else categories)"

text \<open>
  The generator over given tables. \<^verbatim>\<open>project_data["legacy_type"]\<close> raises \<^verbatim>\<open>KeyError\<close> when
  the key is missing; \<^verbatim>\<open>project_data.get("scoping_details", {})\<close> does not.
\<close>

definition generate_questions_with ::
  "(string \<times> string list) list \<Rightarrow> (string \<times> string) list \<Rightarrow> (string \<times> string list) list
     \<Rightarrow> project_data \<Rightarrow> error + ordered_dict" where
  "generate_questions_with ltc ttc qbc pd =
     (case legacy_type pd of
        None \<Rightarrow> Inl (KeyError ''legacy_type'')
      | Some lt \<Rightarrow>
          Inr (assemble qbc [] (select_categories ltc ttc lt (scoping_details pd))))"

text \<open>The generator of the module, on the tables as shipped.\<close>

definition generate_questions :: "project_data \<Rightarrow> error + ordered_dict" where
  "generate_questions =
     generate_questions_with LEGACY_TYPE_CATEGORIES THEME_TO_CATEGORY QUESTIONS_BY_CATEGORY"

subsection \<open>The generator on a store of list objects\<close>

text \<open>
  Python lists are mutable objects, and the tables hold references to them. To speak about
  copies, the lists live in a store: an address is an index into the list of all list
  objects, and a new object gets the next index.
\<close>

type_synonym addr = nat
type_synonym store = "string list list"

text \<open>Reading the list at an address; the addresses in use are below the length of the store.\<close>

definition deref :: "store \<Rightarrow> addr \<Rightarrow> string list" where
  "deref s a = (if a < length s then s ! a else [])"

text \<open>\<^verbatim>\<open>list(xs)\<close> and a list literal: a new list object with the given elements.\<close>

definition new_list :: "string list \<Rightarrow> store \<Rightarrow> addr \<times> store" where
  "new_list xs s = (length s, s @ [xs])"

text \<open>\<^verbatim>\<open>a.append(x)\<close>: the object at the address is changed in place.\<close>

definition list_append :: "addr \<Rightarrow> string \<Rightarrow> store \<Rightarrow> store" where
  "list_append a x s = s[a := deref s a @ [x]]"

text \<open>
  The globals of the module: \<^verbatim>\<open>LEGACY_TYPE_CATEGORIES\<close> and \<^verbatim>\<open>QUESTIONS_BY_CATEGORY\<close> map names to
  list objects; the values of \<^verbatim>\<open>THEME_TO_CATEGORY\<close> are strings, which are immutable. The
  generator never writes to the three dicts themselves.
\<close>

record module_refs =
  ltc_refs :: "(string \<times> addr) list"
  ttc_tab :: "(string \<times> string) list"
  qbc_refs :: "(string \<times> addr) list"

text \<open>
  The generator again, statement by statement, now on the store: \<open>categories\<close> is the
  address of the list made by \<^verbatim>\<open>list(LEGACY_TYPE_CATEGORIES.get(legacy_type, []))\<close>, and
  \<^verbatim>\<open>result[cat] = list(questions)\<close> stores the address of a new list. The returned ordered
  dict is a new object of the call and is given by its items.
\<close>

definition append_mapped_st :: "(string \<times> string) list \<Rightarrow> addr \<Rightarrow> string \<Rightarrow> store \<Rightarrow> store" where
  "append_mapped_st ttc categories theme s =
     (case map_of ttc theme of
        None \<Rightarrow> s
      | Some mapped \<Rightarrow>
          if mapped \<noteq> [] \<and> mapped \<notin> set (deref s categories) then list_append categories mapped s
          else s)"

fun scan_themes_st :: "(string \<times> string) list \<Rightarrow> addr \<Rightarrow> string list \<Rightarrow> store \<Rightarrow> store" where
  "scan_themes_st ttc categories [] s = s"
| "scan_themes_st ttc categories (theme # rest) s =
     scan_themes_st ttc categories rest (append_mapped_st ttc categories theme s)"

fun scan_answer_st :: "(string \<times> string) list \<Rightarrow> addr \<Rightarrow> answer \<Rightarrow> store \<Rightarrow> store" where
  "scan_answer_st ttc categories (AnsList themes) s = scan_themes_st ttc categories themes s"
| "scan_answer_st ttc categories (AnsStr a) s = append_mapped_st ttc categories a s"
| "scan_answer_st ttc categories AnsOther s = s"

fun scan_scoping_st :: "(string \<times> string) list \<Rightarrow> addr \<Rightarrow> (string \<times> answer) list \<Rightarrow> store \<Rightarrow> store" where
  "scan_scoping_st ttc categories [] s = s"
| "scan_scoping_st ttc categories ((question_text, answer) # rest) s =
     scan_scoping_st ttc categories rest (scan_answer_st ttc categories answer s)"

fun assemble_st :: "(string \<times> addr) list \<Rightarrow> (string \<times> addr) list \<Rightarrow> string list \<Rightarrow> store
    \<Rightarrow> (string \<times> addr) list \<times> store" where
  "assemble_st qbc result [] s = (result, s)"
| "assemble_st qbc result (cat # rest) s =
     (let questions = (case map_of qbc cat of None \<Rightarrow> [] | Some a \<Rightarrow> deref s a)
      in if questions \<noteq> [] then
           (case new_list questions s of
              (copy, s') \<Rightarrow> assemble_st qbc (od_set result cat copy) rest s')
         else assemble_st qbc result rest s)"

definition generate_questions_st ::
  "module_refs \<Rightarrow> store \<Rightarrow> project_data \<Rightarrow> error + (string \<times> addr) list \<times> store" where
  "generate_questions_st m s pd =
     (case legacy_type pd of
        None \<Rightarrow> Inl (KeyError ''legacy_type'')
      | Some lt \<Rightarrow>
          (case new_list (case map_of (ltc_refs m) lt of None \<Rightarrow> [] | Some a \<Rightarrow> deref s a) s of
             (categories, s1) \<Rightarrow>
               let scoping = (case scoping_details pd of None \<Rightarrow> [] | Some items \<Rightarrow> items);
                   s2 = scan_scoping_st (ttc_tab m) categories scoping s1;
                   s3 = (if closing_category \<notin> set (deref s2 categories)
                         then list_append categories closing_category s2 else s2)
               in Inr (assemble_st (qbc_refs m) [] (deref s3 categories) s3)))"

text \<open>
  Importing the module evaluates the dict literals, which creates one list object for each
  list literal, in the order of the file.
\<close>

fun store_lists :: "(string \<times> string list) list \<Rightarrow> store \<Rightarrow> (string \<times> addr) list \<times> store" where
  "store_lists [] s = ([], s)"
| "store_lists ((k, xs) # rest) s =
     (case new_list xs s of
        (a, s') \<Rightarrow> (case store_lists rest s' of (refs, s'') \<Rightarrow> ((k, a) # refs, s'')))"

definition import_module :: "module_refs \<times> store" where
  "import_module =
     (case store_lists QUESTIONS_BY_CATEGORY [] of
        (qbc, s1) \<Rightarrow>
          (case store_lists LEGACY_TYPE_CATEGORIES s1 of
             (ltc, s2) \<Rightarrow> (\<lparr>ltc_refs = ltc, ttc_tab = THEME_TO_CATEGORY, qbc_refs = qbc\<rparr>, s2)))"

subsection \<open>Notions used to state the properties\<close>

text \<open>A list without its repeated elements, each element kept at its first occurrence.\<close>

fun remdups_first :: "'a list \<Rightarrow> 'a list" where
  "remdups_first [] = []"
| "remdups_first (x # xs) = x # remdups_first (filter (\<lambda>y. y \<noteq> x) xs)"

text \<open>Appending an element unless the list has it: the step shared by all loops.\<close>

definition add_new :: "'a list \<Rightarrow> 'a \<Rightarrow> 'a list" where
  "add_new cats m = (if m \<in> set cats then cats else cats @ [m])"

text \<open>The categories a label maps to in the theme table: none, or the one truthy value.\<close>

definition target :: "(string \<times> string) list \<Rightarrow> string \<Rightarrow> string list" where
  "target ttc theme = (case map_of ttc theme of None \<Rightarrow> [] | Some mapped \<Rightarrow> if mapped = [] then [] else [mapped])"

text \<open>The labels of an answer that the generator looks up, in scan order.\<close>

fun answer_labels :: "answer \<Rightarrow> string list" where
  "answer_labels (AnsList themes) = themes"
| "answer_labels (AnsStr s) = [s]"
| "answer_labels AnsOther = []"

text \<open>All labels looked up for the scoping answers, in the order of the scan.\<close>

definition scanned_labels :: "(string \<times> answer) list option \<Rightarrow> string list" where
  "scanned_labels sd = (case sd of None \<Rightarrow> [] | Some items \<Rightarrow> concat (map (\<lambda>(q, a). answer_labels a) items))"

text \<open>The theme-derived categories in scan order, repetitions included.\<close>

definition theme_categories :: "(string \<times> string) list \<Rightarrow> (string \<times> answer) list option \<Rightarrow> string list" where
  "theme_categories ttc sd = concat (map (target ttc) (scanned_labels sd))"

text \<open>\<^verbatim>\<open>LEGACY_TYPE_CATEGORIES.get(legacy_type, [])\<close> for a table \<open>ltc\<close>.\<close>

definition defaults_of :: "(string \<times> string list) list \<Rightarrow> string \<Rightarrow> string list" where
  "defaults_of ltc lt = (case map_of ltc lt of None \<Rightarrow> [] | Some ds \<Rightarrow> ds)"

text \<open>A category has a non-empty question list in the pool \<open>qbc\<close>.\<close>

definition has_questions :: "(string \<times> string list) list \<Rightarrow> string \<Rightarrow> bool" where
  "has_questions qbc cat = (case map_of qbc cat of None \<Rightarrow> False | Some qs \<Rightarrow> qs \<noteq> [])"

text \<open>\<^verbatim>\<open>QUESTIONS_BY_CATEGORY.get(cat, [])\<close> for a pool \<open>qbc\<close>.\<close>

definition lookup_questions :: "(string \<times> string list) list \<Rightarrow> string \<Rightarrow> string list" where
  "lookup_questions qbc cat = (case map_of qbc cat of None \<Rightarrow> [] | Some qs \<Rightarrow> qs)"

text \<open>The category sequence of the output: the keys of the returned ordered dict.\<close>

definition category_sequence :: "project_data \<Rightarrow> error + string list" where
  "category_sequence pd =
     (case generate_questions pd of Inl e \<Rightarrow> Inl e | Inr result \<Rightarrow> Inr (map fst result))"

text \<open>The follow-up questions of an archetype, \<^verbatim>\<open>LEGACY_TYPES[lt]["follow_up_questions"]\<close>.\<close>

definition follow_up_questions :: "string \<Rightarrow> follow_up_question list" where
  "follow_up_questions lt = (case map_of LEGACY_TYPES lt of None \<Rightarrow> [] | Some qs \<Rightarrow> qs)"

text \<open>The option labels of the multiselect questions of an archetype.\<close>

definition multiselect_labels :: "string \<Rightarrow> string list" where
  "multiselect_labels lt =
     concat (map options (filter (\<lambda>q. qtype q = Multiselect) (follow_up_questions lt)))"

text \<open>Every category name that occurs as a default or as the value of a theme.\<close>

definition table_categories :: "string list" where
  "table_categories = concat (map snd LEGACY_TYPE_CATEGORIES) @ map snd THEME_TO_CATEGORY"

text \<open>The values behind a dict of list references.\<close>

definition contents :: "store \<Rightarrow> (string \<times> addr) list \<Rightarrow> (string \<times> string list) list" where
  "contents s refs = map (\<lambda>(k, a). (k, deref s a)) refs"

text \<open>Every reference points to an object of the store.\<close>

definition valid_refs :: "store \<Rightarrow> (string \<times> addr) list \<Rightarrow> bool" where
  "valid_refs s refs = list_all (\<lambda>(k, a). a < length s) refs"

text \<open>The globals hold the tables as declared: nothing has changed them since the import.\<close>

definition module_loaded :: "module_refs \<Rightarrow> store \<Rightarrow> bool" where
  "module_loaded m s \<longleftrightarrow>
     valid_refs s (ltc_refs m) \<and> valid_refs s (qbc_refs m)
     \<and> contents s (ltc_refs m) = LEGACY_TYPE_CATEGORIES
     \<and> ttc_tab m = THEME_TO_CATEGORY
     \<and> contents s (qbc_refs m) = QUESTIONS_BY_CATEGORY"

text \<open>What a caller sees of a call: the error, or the returned dict with its lists read.\<close>

definition output_of :: "error + (string \<times> addr) list \<times> store \<Rightarrow> error + ordered_dict" where
  "output_of r = (case r of Inl e \<Rightarrow> Inl e | Inr (result, s) \<Rightarrow> Inr (contents s result))"

text \<open>A project scope as the application builds it, used for concrete instances.\<close>

definition example_scope :: project_data where
  "example_scope = \<lparr>legacy_type = Some ''Words of Wisdom'',
     scoping_details = Some [
       (''What areas of wisdom would you like to share? (Select all that apply)'',
        AnsList [''Parenting insights''])]\<rparr>"

section \<open>Properties\<close>

subsection \<open>First-occurrence deduplication\<close>

lemma set_remdups_first [simp]: "set (remdups_first xs) = set xs"
  by (induction xs rule: remdups_first.induct) auto

lemma distinct_remdups_first [simp]: "distinct (remdups_first xs)"
  by (induction xs rule: remdups_first.induct) auto

lemma remdups_first_filter: "remdups_first (filter P xs) = filter P (remdups_first xs)"
proof (induction xs rule: remdups_first.induct)
  case 1
  show ?case by simp
next
  case (2 x xs)
  have comm: "filter (\<lambda>y. y \<noteq> x) (filter P xs) = filter P (filter (\<lambda>y. y \<noteq> x) xs)"
    by (simp add: conj_commute)
  show ?case
  proof (cases "P x")
    case True
    then have "remdups_first (filter P (x # xs)) =
               x # remdups_first (filter (\<lambda>y. y \<noteq> x) (filter P xs))"
      by (simp del: filter_filter)
    also have "\<dots> = x # filter P (remdups_first (filter (\<lambda>y. y \<noteq> x) xs))"
      using 2 by (simp only: comm)
    finally show ?thesis using True by simp
  next
    case False
    have "filter P (remdups_first (filter (\<lambda>y. y \<noteq> x) xs)) =
          remdups_first (filter P (filter (\<lambda>y. y \<noteq> x) xs))"
      using 2 by simp
    also have "filter P (filter (\<lambda>y. y \<noteq> x) xs) = filter P xs"
      using False by (auto intro: filter_cong)
    finally show ?thesis using False by simp
  qed
qed

lemma remdups_first_distinct: "distinct xs \<Longrightarrow> remdups_first xs = xs"
proof (induction xs)
  case Nil
  show ?case by simp
next
  case (Cons x xs)
  then have "filter (\<lambda>y. y \<noteq> x) xs = xs"
    by (auto intro: filter_True)
  with Cons show ?case by simp
qed

lemma remdups_first_append:
  "remdups_first (xs @ ys) = remdups_first xs @ remdups_first (filter (\<lambda>y. y \<notin> set xs) ys)"
proof (induction xs arbitrary: ys rule: remdups_first.induct)
  case 1
  show ?case by simp
next
  case (2 x xs)
  have "filter (\<lambda>y. y \<notin> set (filter (\<lambda>y. y \<noteq> x) xs)) (filter (\<lambda>y. y \<noteq> x) ys)
        = filter (\<lambda>y. y \<notin> set (x # xs)) ys"
    by (auto intro: filter_cong)
  with 2 [of "filter (\<lambda>y. y \<noteq> x) ys"] show ?case by simp
qed

lemma foldl_add_new:
  "foldl add_new cats ms = cats @ remdups_first (filter (\<lambda>m. m \<notin> set cats) ms)"
proof (induction ms arbitrary: cats)
  case Nil
  show ?case by simp
next
  case (Cons m ms)
  show ?case
  proof (cases "m \<in> set cats")
    case True
    then show ?thesis using Cons [of cats] by (simp add: add_new_def)
  next
    case False
    have "filter (\<lambda>y. y \<notin> set (cats @ [m])) ms
          = filter (\<lambda>y. y \<noteq> m) (filter (\<lambda>y. y \<notin> set cats) ms)"
      by (auto intro: filter_cong)
    then show ?thesis using False Cons [of "cats @ [m]"] by (simp add: add_new_def)
  qed
qed

lemma append_mapped_fold: "append_mapped ttc cats theme = foldl add_new cats (target ttc theme)"
  by (simp add: append_mapped_def target_def add_new_def split: option.splits)

lemma scan_themes_fold:
  "scan_themes ttc cats themes = foldl add_new cats (concat (map (target ttc) themes))"
  by (induction themes arbitrary: cats) (simp_all add: append_mapped_fold)

lemma scan_answer_fold:
  "scan_answer ttc cats a = foldl add_new cats (concat (map (target ttc) (answer_labels a)))"
  by (cases a) (simp_all add: scan_themes_fold append_mapped_fold)

lemma scan_scoping_fold:
  "scan_scoping ttc cats items =
     foldl add_new cats (theme_categories ttc (Some items))"
  by (induction items arbitrary: cats)
     (auto simp: scan_answer_fold theme_categories_def scanned_labels_def)

lemma select_categories_fold:
  "select_categories ltc ttc lt sd =
     foldl add_new (defaults_of ltc lt) (theme_categories ttc sd @ [closing_category])"
  by (cases sd)
     (simp_all add: select_categories_def defaults_of_def scan_scoping_fold add_new_def Let_def
        theme_categories_def scanned_labels_def)

lemma keys_od_set: "map fst (od_set result k v) = add_new (map fst result) k"
  by (induction result) (force simp: add_new_def)+

lemma keys_assemble:
  "map fst (assemble qbc result cats) =
     foldl add_new (map fst result) (filter (has_questions qbc) cats)"
  by (induction cats arbitrary: result)
     (auto simp: keys_od_set has_questions_def Let_def split: option.splits)

lemma keys_assemble_empty:
  "map fst (assemble qbc [] cats) = filter (has_questions qbc) (remdups_first cats)"
  by (simp add: keys_assemble foldl_add_new remdups_first_filter)

lemma remdups_first_foldl_add_new:
  "remdups_first (foldl add_new cats ms) = remdups_first (cats @ ms)"
proof -
  have "remdups_first (foldl add_new cats ms) =
        remdups_first cats @ remdups_first (filter (\<lambda>y. y \<notin> set cats)
          (remdups_first (filter (\<lambda>m. m \<notin> set cats) ms)))"
    by (simp only: foldl_add_new remdups_first_append)
  also have "filter (\<lambda>y. y \<notin> set cats) (remdups_first (filter (\<lambda>m. m \<notin> set cats) ms))
             = remdups_first (filter (\<lambda>m. m \<notin> set cats) ms)"
    by (rule filter_True) simp
  also have "remdups_first (remdups_first (filter (\<lambda>m. m \<notin> set cats) ms)) =
             remdups_first (filter (\<lambda>m. m \<notin> set cats) ms)"
    by (rule remdups_first_distinct) simp
  finally show ?thesis by (simp only: remdups_first_append)
qed

lemma remdups_first_select:
  "remdups_first (select_categories ltc ttc lt sd) =
     remdups_first (defaults_of ltc lt @ theme_categories ttc sd @ [closing_category])"
  by (simp only: select_categories_fold remdups_first_foldl_add_new)

lemma has_questions_lookup: "has_questions qbc cat \<longleftrightarrow> lookup_questions qbc cat \<noteq> []"
  by (simp add: has_questions_def lookup_questions_def split: option.splits)

lemma od_set_map_add_new:
  "od_set (map (\<lambda>c. (c, f c)) ks) k (f k) = map (\<lambda>c. (c, f c)) (add_new ks k)"
  by (induction ks) (auto simp: add_new_def)

lemma assemble_map:
  "assemble qbc (map (\<lambda>c. (c, lookup_questions qbc c)) ks) cats =
     map (\<lambda>c. (c, lookup_questions qbc c)) (foldl add_new ks (filter (has_questions qbc) cats))"
proof (induction cats arbitrary: ks)
  case Nil
  show ?case by simp
next
  case (Cons cat cats)
  show ?case
  proof (cases "has_questions qbc cat")
    case True
    then have "assemble qbc (map (\<lambda>c. (c, lookup_questions qbc c)) ks) (cat # cats) =
          assemble qbc (od_set (map (\<lambda>c. (c, lookup_questions qbc c)) ks) cat (lookup_questions qbc cat)) cats"
      by (simp add: has_questions_lookup lookup_questions_def)
    also have "\<dots> = assemble qbc (map (\<lambda>c. (c, lookup_questions qbc c)) (add_new ks cat)) cats"
      by (simp only: od_set_map_add_new)
    finally show ?thesis using True Cons [of "add_new ks cat"] by simp
  next
    case False
    then show ?thesis using Cons [of ks]
      by (simp add: has_questions_lookup lookup_questions_def)
  qed
qed

lemma assemble_empty:
  "assemble qbc [] cats =
     map (\<lambda>c. (c, lookup_questions qbc c)) (filter (has_questions qbc) (remdups_first cats))"
  using assemble_map [of qbc "[]" cats]
  by (simp add: foldl_add_new remdups_first_filter)

lemma generate_questions_with_eq:
  "generate_questions_with ltc ttc qbc \<lparr>legacy_type = Some lt, scoping_details = sd\<rparr> =
     Inr (map (\<lambda>c. (c, lookup_questions qbc c))
       (filter (has_questions qbc)
         (remdups_first (defaults_of ltc lt @ theme_categories ttc sd @ [closing_category]))))"
  by (simp add: generate_questions_with_def assemble_empty remdups_first_select)

subsection \<open>Facts about the tables as shipped\<close>

text \<open>No dict literal repeats a key, so a lookup by \<open>map_of\<close> finds the entry of the dict.\<close>

lemma distinct_keys_QUESTIONS_BY_CATEGORY: "distinct (map fst QUESTIONS_BY_CATEGORY)"
  by code_simp

lemma distinct_keys_LEGACY_TYPE_CATEGORIES: "distinct (map fst LEGACY_TYPE_CATEGORIES)"
  by code_simp

lemma distinct_keys_THEME_TO_CATEGORY: "distinct (map fst THEME_TO_CATEGORY)"
  by code_simp

lemma distinct_keys_LEGACY_TYPES: "distinct (map fst LEGACY_TYPES)"
  by code_simp

lemma pool_has_table_categories:
  "list_all (has_questions QUESTIONS_BY_CATEGORY) (closing_category # table_categories)"
  by code_simp

lemma defaults_distinct: "list_all distinct (map snd LEGACY_TYPE_CATEGORIES)"
  by code_simp

lemma distinct_defaults_of: "distinct (defaults_of LEGACY_TYPE_CATEGORIES lt)"
proof (cases "map_of LEGACY_TYPE_CATEGORIES lt")
  case None
  then show ?thesis by (simp add: defaults_of_def)
next
  case (Some ds)
  then have "(lt, ds) \<in> set LEGACY_TYPE_CATEGORIES" by (rule map_of_SomeD)
  then have "ds \<in> set (map snd LEGACY_TYPE_CATEGORIES)" by force
  with defaults_distinct have "distinct ds" by (simp only: list_all_iff)
  with Some show ?thesis by (simp add: defaults_of_def)
qed

lemma set_defaults_of: "set (defaults_of ltc lt) \<subseteq> set (concat (map snd ltc))"
proof (cases "map_of ltc lt")
  case None
  then show ?thesis by (simp add: defaults_of_def)
next
  case (Some ds)
  then have "(lt, ds) \<in> set ltc" by (rule map_of_SomeD)
  then have "set ds \<subseteq> set (concat (map snd ltc))" by force
  with Some show ?thesis by (simp add: defaults_of_def)
qed

lemma set_target: "set (target ttc l) \<subseteq> set (map snd ttc)"
proof (cases "map_of ttc l")
  case None
  then show ?thesis by (simp add: target_def)
next
  case (Some m)
  then have "(l, m) \<in> set ttc" by (rule map_of_SomeD)
  then have "m \<in> set (map snd ttc)" by force
  with Some show ?thesis by (simp add: target_def)
qed

lemma set_theme_categories: "set (theme_categories ttc sd) \<subseteq> set (map snd ttc)"
  using set_target by (fastforce simp: theme_categories_def)

lemma selected_in_tables:
  "set (defaults_of LEGACY_TYPE_CATEGORIES lt @ theme_categories THEME_TO_CATEGORY sd @ [closing_category])
     \<subseteq> set (closing_category # table_categories)"
  using set_defaults_of [of LEGACY_TYPE_CATEGORIES lt] set_theme_categories [of THEME_TO_CATEGORY sd]
  by (auto simp: table_categories_def)

lemma selected_has_questions:
  "c \<in> set (defaults_of LEGACY_TYPE_CATEGORIES lt @ theme_categories THEME_TO_CATEGORY sd @ [closing_category])
     \<Longrightarrow> has_questions QUESTIONS_BY_CATEGORY c"
  using selected_in_tables [of lt sd] pool_has_table_categories
  by (auto simp only: list_all_iff)

lemma generate_questions_eq:
  "generate_questions \<lparr>legacy_type = Some lt, scoping_details = sd\<rparr> =
     Inr (map (\<lambda>c. (c, lookup_questions QUESTIONS_BY_CATEGORY c))
       (remdups_first (defaults_of LEGACY_TYPE_CATEGORIES lt @
          theme_categories THEME_TO_CATEGORY sd @ [closing_category])))"
proof -
  let ?src = "defaults_of LEGACY_TYPE_CATEGORIES lt @
          theme_categories THEME_TO_CATEGORY sd @ [closing_category]"
  have "filter (has_questions QUESTIONS_BY_CATEGORY) (remdups_first ?src) = remdups_first ?src"
    by (rule filter_True) (simp add: selected_has_questions del: set_append)
  then show ?thesis
    by (simp only: generate_questions_def generate_questions_with_eq)
qed

subsection \<open>The category sequence\<close>

lemma category_sequence_eq:
  "category_sequence \<lparr>legacy_type = Some lt, scoping_details = sd\<rparr> =
     Inr (remdups_first (defaults_of LEGACY_TYPE_CATEGORIES lt @
          theme_categories THEME_TO_CATEGORY sd @ [closing_category]))"
  by (simp add: category_sequence_def generate_questions_eq comp_def)

text \<open>
  Claim C3. The category sequence is the concatenation of the archetype's defaults (in
  declaration order), the theme-derived categories (in scan order) and the closing category,
  with every category kept at its first occurrence only; hence no category appears twice,
  and the sequence starts with the defaults as declared.
\<close>

theorem categories_deduplicated_by_first_occurrence:
  "\<exists>result. generate_questions \<lparr>legacy_type = Some lt, scoping_details = sd\<rparr> = Inr result
     \<and> map fst result =
         remdups_first (defaults_of LEGACY_TYPE_CATEGORIES lt @
           theme_categories THEME_TO_CATEGORY sd @ [closing_category])
     \<and> distinct (map fst result)
     \<and> take (length (defaults_of LEGACY_TYPE_CATEGORIES lt)) (map fst result) =
         defaults_of LEGACY_TYPE_CATEGORIES lt"
proof -
  let ?ds = "defaults_of LEGACY_TYPE_CATEGORIES lt"
  let ?rest = "theme_categories THEME_TO_CATEGORY sd @ [closing_category]"
  have "remdups_first (?ds @ ?rest) = ?ds @ remdups_first (filter (\<lambda>y. y \<notin> set ?ds) ?rest)"
    by (simp only: remdups_first_append [of ?ds] remdups_first_distinct [OF distinct_defaults_of])
  then have "take (length ?ds) (remdups_first (?ds @ ?rest)) = ?ds"
    by simp
  then show ?thesis
    by (simp add: generate_questions_eq comp_def del: remdups_first.simps)
qed

subsection \<open>Concrete scopes\<close>

text \<open>
  Claim C6. For the archetype "Faith & Spiritual Journey" without scoping answers (no
  \<^verbatim>\<open>scoping_details\<close>, an empty one, or the one built from a radio choice and an empty
  multiselect) the category sequence is exactly Faith & Spirituality, Values & Life
  Lessons, Reflection & Legacy.
\<close>

theorem faith_defaults_only:
  "category_sequence \<lparr>legacy_type = Some ''Faith & Spiritual Journey'', scoping_details = None\<rparr> =
     Inr [''Faith & Spirituality'', ''Values & Life Lessons'', ''Reflection & Legacy'']
   \<and> category_sequence \<lparr>legacy_type = Some ''Faith & Spiritual Journey'', scoping_details = Some []\<rparr> =
     Inr [''Faith & Spirituality'', ''Values & Life Lessons'', ''Reflection & Legacy'']
   \<and> category_sequence \<lparr>legacy_type = Some ''Faith & Spiritual Journey'',
        scoping_details = Some [
          (''What best describes your spiritual journey?'', AnsStr ''Lifelong faith in one tradition''),
          (''What aspects of your faith journey matter most? (Select all that apply)'', AnsList [])]\<rparr> =
     Inr [''Faith & Spirituality'', ''Values & Life Lessons'', ''Reflection & Legacy'']"
  by code_simp

text \<open>
  Claim C8. For "Full Life Story" with the themes answer Travel & Adventures, Military
  Service (in this order), Adventures & Experiences comes before Military & Service in the
  category sequence.
\<close>

theorem multi_choice_order_preserved:
  "category_sequence \<lparr>legacy_type = Some ''Full Life Story'',
      scoping_details = Some [
        (''Which life themes are most important to include? (Select all that apply)'',
         AnsList [''Travel & Adventures'', ''Military Service''])]\<rparr> =
     Inr ([''Childhood & Growing Up'', ''Family & Relationships'', ''Career & Professional Life'',
           ''Values & Life Lessons''] @ [''Adventures & Experiences''] @ [''Reflection & Legacy''] @
          [''Military & Service''])"
  by code_simp

text \<open>
  Claim C1 states that Reflection & Legacy is always the last category. For "Full Life
  Story", whose defaults end with Reflection & Legacy, and the selected theme Military
  Service, the generator returns Military & Service after Reflection & Legacy: the closing
  category is present once, but it is not the last one.
\<close>

theorem closing_category_not_last:
  "category_sequence \<lparr>legacy_type = Some ''Full Life Story'',
      scoping_details = Some [
        (''How far back would you like to go?'', AnsStr ''As far back as I can remember''),
        (''Which life themes are most important to include? (Select all that apply)'',
         AnsList [''Military Service'']),
        (''What tone or feel should the story have?'',
         AnsStr (''Warm and conversational '' @ [CHR 0xE2, CHR 0x80, CHR 0x94] @
                 '' like sitting on the porch together'')),
        (''How extensive should the final piece be?'',
         AnsStr ''A concise overview (10-20 pages / 30-60 min of audio)'')]\<rparr> =
     Inr [''Childhood & Growing Up'', ''Family & Relationships'', ''Career & Professional Life'',
          ''Values & Life Lessons'', ''Adventures & Experiences'', ''Reflection & Legacy'',
          ''Military & Service'']
   \<and> last [''Childhood & Growing Up'', ''Family & Relationships'', ''Career & Professional Life'',
          ''Values & Life Lessons'', ''Adventures & Experiences'', ''Reflection & Legacy'',
          ''Military & Service''] \<noteq> closing_category"
  by code_simp

subsection \<open>String answers that are not labels\<close>

text \<open>
  Claim C2 states that a free-text answer never contributes a category. The generator looks
  every string answer up in the theme table: the text "Faith & Spirituality" typed into the
  free-text question of "Military & Service" adds the category Faith & Spirituality, while
  the text "US Army, 1968-1972" adds nothing.
\<close>

theorem free_text_contributes_counterexample:
  "category_sequence \<lparr>legacy_type = Some ''Military & Service'',
      scoping_details = Some [(''What branch and era of service?'', AnsStr ''Faith & Spirituality'')]\<rparr> =
     Inr [''Military & Service'', ''Values & Life Lessons'', ''Reflection & Legacy'',
          ''Faith & Spirituality'']
   \<and> category_sequence \<lparr>legacy_type = Some ''Military & Service'',
      scoping_details = Some [(''What branch and era of service?'', AnsStr ''US Army, 1968-1972'')]\<rparr> =
     Inr [''Military & Service'', ''Values & Life Lessons'', ''Reflection & Legacy'']"
  by code_simp

lemma theme_categories_drop_answer:
  assumes "concat (map (target ttc) (answer_labels a)) = []"
  shows "theme_categories ttc (Some (pre @ (q, a) # post)) = theme_categories ttc (Some (pre @ post))"
  using assms by (simp add: theme_categories_def scanned_labels_def)

text \<open>
  Claim C2, amended. A string answer that is not a key of \<^verbatim>\<open>THEME_TO_CATEGORY\<close> contributes
  nothing: the output is the one obtained without that answer.
\<close>

theorem free_text_not_a_label_contributes_nothing:
  assumes "map_of THEME_TO_CATEGORY s = None"
  shows "generate_questions \<lparr>legacy_type = Some lt, scoping_details = Some (pre @ (q, AnsStr s) # post)\<rparr>
       = generate_questions \<lparr>legacy_type = Some lt, scoping_details = Some (pre @ post)\<rparr>"
proof -
  have "concat (map (target THEME_TO_CATEGORY) (answer_labels (AnsStr s))) = []"
    using assms by (simp add: target_def)
  then show ?thesis
    by (simp only: generate_questions_eq theme_categories_drop_answer)
qed

theorem free_text_not_a_label_witness:
  "map_of THEME_TO_CATEGORY ''US Army, 1968-1972'' = None
   \<and> generate_questions \<lparr>legacy_type = Some ''Military & Service'',
        scoping_details = Some ([] @ (''What branch and era of service?'', AnsStr ''US Army, 1968-1972'') # [])\<rparr>
     = generate_questions \<lparr>legacy_type = Some ''Military & Service'', scoping_details = Some ([] @ [])\<rparr>"
proof -
  have h: "map_of THEME_TO_CATEGORY ''US Army, 1968-1972'' = None"
    by code_simp
  show ?thesis
    using h free_text_not_a_label_contributes_nothing [OF h, of "''Military & Service''" "[]"
        "''What branch and era of service?''" "[]"]
    by simp
qed

subsection \<open>Degenerate lookups\<close>

lemma theme_categories_drop_label:
  assumes "target ttc l = []"
  shows "theme_categories ttc (Some (pre @ (q, AnsList (xs @ l # ys)) # post)) =
         theme_categories ttc (Some (pre @ (q, AnsList (xs @ ys)) # post))"
  using assms by (simp add: theme_categories_def scanned_labels_def)

lemma defaults_of_unknown:
  "map_of ltc lt = None \<Longrightarrow> defaults_of ltc lt = defaults_of [(lt, [])] lt"
  by (simp add: defaults_of_def)

text \<open>
  Claim C7. Over any tables, a call with a \<^verbatim>\<open>legacy_type\<close> returns a result; an archetype
  absent from the default table behaves as one with an empty default list, a label absent
  from the theme table leaves the categories and the output unchanged, and a category
  absent from the pool is not a key of the output.
\<close>

theorem lookups_degrade_gracefully:
  "(\<exists>result. generate_questions_with ltc ttc qbc \<lparr>legacy_type = Some lt, scoping_details = sd\<rparr> = Inr result
       \<and> (\<forall>c. map_of qbc c = None \<longrightarrow> c \<notin> fst ` set result))
   \<and> (map_of ltc lt = None \<longrightarrow>
         generate_questions_with ltc ttc qbc \<lparr>legacy_type = Some lt, scoping_details = sd\<rparr> =
         generate_questions_with [(lt, [])] ttc qbc \<lparr>legacy_type = Some lt, scoping_details = sd\<rparr>)
   \<and> (map_of ttc l = None \<longrightarrow>
         append_mapped ttc cats l = cats
       \<and> generate_questions_with ltc ttc qbc
           \<lparr>legacy_type = Some lt, scoping_details = Some (pre @ (q, AnsList (xs @ l # ys)) # post)\<rparr> =
         generate_questions_with ltc ttc qbc
           \<lparr>legacy_type = Some lt, scoping_details = Some (pre @ (q, AnsList (xs @ ys)) # post)\<rparr>
       \<and> generate_questions_with ltc ttc qbc
           \<lparr>legacy_type = Some lt, scoping_details = Some (pre @ (q, AnsStr l) # post)\<rparr> =
         generate_questions_with ltc ttc qbc
           \<lparr>legacy_type = Some lt, scoping_details = Some (pre @ post)\<rparr>)"
proof (intro conjI impI)
  show "\<exists>result. generate_questions_with ltc ttc qbc \<lparr>legacy_type = Some lt, scoping_details = sd\<rparr> = Inr result
       \<and> (\<forall>c. map_of qbc c = None \<longrightarrow> c \<notin> fst ` set result)"
    by (auto simp: generate_questions_with_eq has_questions_def)
next
  assume "map_of ltc lt = None"
  then show "generate_questions_with ltc ttc qbc \<lparr>legacy_type = Some lt, scoping_details = sd\<rparr> =
         generate_questions_with [(lt, [])] ttc qbc \<lparr>legacy_type = Some lt, scoping_details = sd\<rparr>"
    by (simp only: generate_questions_with_eq defaults_of_unknown)
next
  assume "map_of ttc l = None"
  then show "append_mapped ttc cats l = cats"
    by (simp add: append_mapped_def)
next
  assume "map_of ttc l = None"
  then have "target ttc l = []" by (simp add: target_def)
  then show "generate_questions_with ltc ttc qbc
           \<lparr>legacy_type = Some lt, scoping_details = Some (pre @ (q, AnsList (xs @ l # ys)) # post)\<rparr> =
         generate_questions_with ltc ttc qbc
           \<lparr>legacy_type = Some lt, scoping_details = Some (pre @ (q, AnsList (xs @ ys)) # post)\<rparr>"
    by (simp only: generate_questions_with_eq theme_categories_drop_label)
next
  assume "map_of ttc l = None"
  then have "concat (map (target ttc) (answer_labels (AnsStr l))) = []"
    by (simp add: target_def)
  then show "generate_questions_with ltc ttc qbc
           \<lparr>legacy_type = Some lt, scoping_details = Some (pre @ (q, AnsStr l) # post)\<rparr> =
         generate_questions_with ltc ttc qbc
           \<lparr>legacy_type = Some lt, scoping_details = Some (pre @ post)\<rparr>"
    by (simp only: generate_questions_with_eq theme_categories_drop_answer)
qed

theorem lookups_degrade_gracefully_witness:
  "map_of [(''Known'', [''Ghost''])] ''Unknown'' = None
   \<and> map_of [(''theme'', ''Ghost'')] ''no theme'' = None
   \<and> map_of [(''Reflection & Legacy'', [''What are you most proud of?''])] ''Ghost'' = None
   \<and> generate_questions_with [(''Known'', [''Ghost''])] [(''theme'', ''Ghost'')]
        [(''Reflection & Legacy'', [''What are you most proud of?''])]
        \<lparr>legacy_type = Some ''Unknown'',
         scoping_details = Some [(''q'', AnsList [''theme'', ''no theme''])]\<rparr>
       = Inr [(''Reflection & Legacy'', [''What are you most proud of?''])]
   \<and> generate_questions_with [(''Unknown'', [])] [(''theme'', ''Ghost'')]
        [(''Reflection & Legacy'', [''What are you most proud of?''])]
        \<lparr>legacy_type = Some ''Unknown'',
         scoping_details = Some [(''q'', AnsList [''theme''])]\<rparr>
       = Inr [(''Reflection & Legacy'', [''What are you most proud of?''])]"
  using lookups_degrade_gracefully [of "[(''Known'', [''Ghost''])]" "[(''theme'', ''Ghost'')]"
      "[(''Reflection & Legacy'', [''What are you most proud of?''])]" "''Unknown''"
      "Some [(''q'', AnsList [''theme'', ''no theme''])]" "''no theme''" "[]" "[]" "''q''"
      "[''theme'']" "[]" "[]"]
  by (simp add: generate_questions_with_def select_categories_def append_mapped_def
      closing_category_def)

subsection \<open>The vocabulary of the catalogue\<close>

text \<open>
  Claim C9. \<^verbatim>\<open>LEGACY_TYPES\<close> declares eight archetypes, and every option label of every
  multiselect follow-up question of each of them is a key of \<^verbatim>\<open>THEME_TO_CATEGORY\<close>.
\<close>

theorem multiselect_labels_are_themes:
  "map fst LEGACY_TYPES =
     [''Full Life Story'', ''Words of Wisdom'', ''Growing Up'', ''Professional Life: My Career'',
      ''Love & Family'', ''Military & Service'', ''Faith & Spiritual Journey'', ''A Specific Chapter'']
   \<and> (\<forall>lt \<in> set (map fst LEGACY_TYPES). \<forall>l \<in> set (multiselect_labels lt).
         \<exists>c. map_of THEME_TO_CATEGORY l = Some c)"
proof -
  have "list_all (\<lambda>lt. list_all (\<lambda>l. map_of THEME_TO_CATEGORY l \<noteq> None) (multiselect_labels lt))
          (map fst LEGACY_TYPES)"
    by code_simp
  moreover have "map fst LEGACY_TYPES =
     [''Full Life Story'', ''Words of Wisdom'', ''Growing Up'', ''Professional Life: My Career'',
      ''Love & Family'', ''Military & Service'', ''Faith & Spiritual Journey'', ''A Specific Chapter'']"
    by code_simp
  ultimately show ?thesis
    by (simp only: list_all_iff) blast
qed

theorem multiselect_labels_are_themes_witness:
  "''Full Life Story'' \<in> set (map fst LEGACY_TYPES)
   \<and> ''Military Service'' \<in> set (multiselect_labels ''Full Life Story'')
   \<and> (\<exists>c. map_of THEME_TO_CATEGORY ''Military Service'' = Some c)"
proof -
  have a: "''Full Life Story'' \<in> set (map fst LEGACY_TYPES)" by code_simp
  have b: "''Military Service'' \<in> set (multiselect_labels ''Full Life Story'')" by code_simp
  from multiselect_labels_are_themes a b show ?thesis by blast
qed

subsection \<open>Completeness of the pool\<close>

lemma distinct_select_categories:
  "distinct (select_categories LEGACY_TYPE_CATEGORIES THEME_TO_CATEGORY lt sd)"
  by (auto simp: select_categories_fold foldl_add_new distinct_defaults_of simp del: foldl_append)

lemma select_categories_eq:
  "select_categories LEGACY_TYPE_CATEGORIES THEME_TO_CATEGORY lt sd =
     remdups_first (defaults_of LEGACY_TYPE_CATEGORIES lt @
          theme_categories THEME_TO_CATEGORY sd @ [closing_category])"
  using remdups_first_select [of LEGACY_TYPE_CATEGORIES THEME_TO_CATEGORY lt sd]
  by (simp only: remdups_first_distinct [OF distinct_select_categories])

lemma member_not_Nil: "x \<in> set xs \<Longrightarrow> xs \<noteq> []"
  by auto

text \<open>
  Claim C10. Every category named by a default list or by the theme table has a non-empty
  question list in the pool. Hence, for every input with a \<^verbatim>\<open>legacy_type\<close> (known or not,
  with any scoping answers), no selected category is dropped: the keys of the output are
  the selected categories, the output is not empty, and it holds the closing category with
  its questions from the pool.
\<close>

theorem pool_complete_no_category_dropped:
  "(\<forall>c \<in> set table_categories. \<exists>qs. map_of QUESTIONS_BY_CATEGORY c = Some qs \<and> qs \<noteq> [])
   \<and> (\<exists>result qs. generate_questions \<lparr>legacy_type = Some lt, scoping_details = sd\<rparr> = Inr result
        \<and> result \<noteq> []
        \<and> map fst result = select_categories LEGACY_TYPE_CATEGORIES THEME_TO_CATEGORY lt sd
        \<and> map_of QUESTIONS_BY_CATEGORY closing_category = Some qs \<and> qs \<noteq> []
        \<and> (closing_category, qs) \<in> set result)"
proof (intro conjI)
  show "\<forall>c \<in> set table_categories. \<exists>qs. map_of QUESTIONS_BY_CATEGORY c = Some qs \<and> qs \<noteq> []"
    using pool_has_table_categories
    by (auto simp: list_all_iff has_questions_def split: option.splits)
next
  let ?cats = "remdups_first (defaults_of LEGACY_TYPE_CATEGORIES lt @
          theme_categories THEME_TO_CATEGORY sd @ [closing_category])"
  let ?result = "map (\<lambda>c. (c, lookup_questions QUESTIONS_BY_CATEGORY c)) ?cats"
  have closing: "has_questions QUESTIONS_BY_CATEGORY closing_category"
    using pool_has_table_categories by simp
  then obtain qs where qs: "map_of QUESTIONS_BY_CATEGORY closing_category = Some qs" "qs \<noteq> []"
    by (auto simp: has_questions_def split: option.splits)
  have mem: "closing_category \<in> set ?cats" by simp
  then have "(closing_category, lookup_questions QUESTIONS_BY_CATEGORY closing_category) \<in> set ?result"
    unfolding set_map by (rule imageI)
  then have in_result: "(closing_category, qs) \<in> set ?result"
    using qs by (simp add: lookup_questions_def)
  have nonempty: "?result \<noteq> []" using in_result by (rule member_not_Nil)
  have keys: "map fst ?result = select_categories LEGACY_TYPE_CATEGORIES THEME_TO_CATEGORY lt sd"
    by (simp add: select_categories_eq comp_def)
  show "\<exists>result qs. generate_questions \<lparr>legacy_type = Some lt, scoping_details = sd\<rparr> = Inr result
        \<and> result \<noteq> []
        \<and> map fst result = select_categories LEGACY_TYPE_CATEGORIES THEME_TO_CATEGORY lt sd
        \<and> map_of QUESTIONS_BY_CATEGORY closing_category = Some qs \<and> qs \<noteq> []
        \<and> (closing_category, qs) \<in> set result"
    using generate_questions_eq [of lt sd] nonempty keys qs in_result by blast
qed

theorem pool_complete_witness:
  "''Military & Service'' \<in> set table_categories
   \<and> (\<exists>qs. map_of QUESTIONS_BY_CATEGORY ''Military & Service'' = Some qs \<and> qs \<noteq> [])"
proof -
  have a: "''Military & Service'' \<in> set table_categories" by code_simp
  from pool_complete_no_category_dropped [of "''Unknown''" None] a show ?thesis by blast
qed

subsection \<open>The store: copies and repeated calls\<close>

lemma deref_valid: "a < length s \<Longrightarrow> deref s a = s ! a"
  by (simp add: deref_def)

lemma deref_append: "a < length s \<Longrightarrow> deref (s @ ext) a = deref s a"
  by (simp add: deref_def nth_append)

lemma contents_append: "valid_refs s refs \<Longrightarrow> contents (s @ ext) refs = contents s refs"
  by (induction refs) (auto simp: contents_def valid_refs_def deref_append)

lemma valid_refs_append: "valid_refs s refs \<Longrightarrow> valid_refs (s @ ext) refs"
  by (induction refs) (auto simp: valid_refs_def)

lemma append_mapped_st_eq:
  "c < length s \<Longrightarrow> append_mapped_st ttc c theme s = s[c := append_mapped ttc (s ! c) theme]"
  by (simp add: append_mapped_st_def append_mapped_def list_append_def deref_valid split: option.splits)

lemma scan_themes_st_eq:
  "c < length s \<Longrightarrow> scan_themes_st ttc c themes s = s[c := scan_themes ttc (s ! c) themes]"
  by (induction themes arbitrary: s) (simp_all add: append_mapped_st_eq)

lemma scan_answer_st_eq:
  "c < length s \<Longrightarrow> scan_answer_st ttc c a s = s[c := scan_answer ttc (s ! c) a]"
  by (cases a) (simp_all add: scan_themes_st_eq append_mapped_st_eq)

lemma scan_scoping_st_eq:
  "c < length s \<Longrightarrow> scan_scoping_st ttc c items s = s[c := scan_scoping ttc (s ! c) items]"
  by (induction items arbitrary: s) (auto simp: scan_answer_st_eq)

lemma map_of_contents: "map_of (contents s refs) k = map_option (deref s) (map_of refs k)"
  by (induction refs) (auto simp: contents_def)

lemma contents_od_set:
  "contents s (od_set result k a) = od_set (contents s result) k (deref s a)"
  by (induction result) (auto simp: contents_def)

lemma set_od_set: "set (od_set result k a) \<subseteq> insert (k, a) (set result)"
  by (induction result) (auto split: if_splits)

lemma snd_od_set: "snd ` set (od_set result k a) \<subseteq> insert a (snd ` set result)"
  using set_od_set [of result k a] by force

lemma assemble_st_eq:
  assumes "valid_refs s qbc" and "valid_refs s result"
  shows "\<exists>res ext. assemble_st qbc result cats s = (res, s @ ext)
           \<and> contents (s @ ext) res = assemble (contents s qbc) (contents s result) cats
           \<and> valid_refs (s @ ext) res
           \<and> snd ` set res \<subseteq> snd ` set result \<union> {length s ..< length (s @ ext)}"
  using assms
proof (induction cats arbitrary: result s)
  case Nil
  then show ?case by (auto intro: exI [of _ "[]"])
next
  case (Cons cat cats)
  define questions where "questions = (case map_of qbc cat of None \<Rightarrow> [] | Some a \<Rightarrow> deref s a)"
  have q: "(case map_of (contents s qbc) cat of None \<Rightarrow> [] | Some qs \<Rightarrow> qs) = questions"
    by (simp add: questions_def map_of_contents split: option.splits)
  show ?case
  proof (cases "questions = []")
    case True
    have "assemble_st qbc result (cat # cats) s = assemble_st qbc result cats s"
      using True by (simp add: questions_def [symmetric] Let_def)
    moreover have "assemble (contents s qbc) (contents s result) (cat # cats) =
                   assemble (contents s qbc) (contents s result) cats"
      using True by (simp add: q Let_def)
    ultimately show ?thesis using Cons.IH [OF Cons.prems] by simp
  next
    case False
    let ?s1 = "s @ [questions]"
    let ?r1 = "od_set result cat (length s)"
    have v1: "valid_refs ?s1 qbc" using Cons.prems(1) by (rule valid_refs_append)
    have vr: "valid_refs ?s1 result" using Cons.prems(2) by (rule valid_refs_append)
    have sub: "snd ` set ?r1 \<subseteq> snd ` set result \<union> {length s}"
      using snd_od_set [of result cat "length s"] by simp
    have v2: "valid_refs ?s1 ?r1"
      using vr sub by (fastforce simp: valid_refs_def list_all_iff)
    from Cons.IH [OF v1 v2] obtain res ext where
      st: "assemble_st qbc ?r1 cats ?s1 = (res, ?s1 @ ext)" and
      ct: "contents (?s1 @ ext) res = assemble (contents ?s1 qbc) (contents ?s1 ?r1) cats" and
      vd: "valid_refs (?s1 @ ext) res" and
      ad: "snd ` set res \<subseteq> snd ` set ?r1 \<union> {length ?s1 ..< length (?s1 @ ext)}"
      by blast
    have c1: "contents ?s1 qbc = contents s qbc"
      using Cons.prems(1) by (rule contents_append)
    have c2: "contents ?s1 ?r1 = od_set (contents s result) cat questions"
      using Cons.prems(2) by (simp add: contents_od_set contents_append deref_def)
    have run: "assemble_st qbc result (cat # cats) s = (res, s @ (questions # ext))"
      using False st by (simp add: questions_def [symmetric] Let_def new_list_def)
    have "assemble (contents s qbc) (contents s result) (cat # cats) =
          assemble (contents s qbc) (od_set (contents s result) cat questions) cats"
      using False by (simp add: q Let_def)
    then have ct': "contents (s @ (questions # ext)) res =
               assemble (contents s qbc) (contents s result) (cat # cats)"
      using ct by (simp add: c1 c2)
    have vd': "valid_refs (s @ (questions # ext)) res" using vd by simp
    have rng: "{length s} \<union> {length ?s1 ..< length (?s1 @ ext)}
                 \<subseteq> {length s ..< length (s @ (questions # ext))}"
      by auto
    have ad': "snd ` set res \<subseteq> snd ` set result \<union> {length s ..< length (s @ (questions # ext))}"
      using ad sub rng by blast
    from run ct' vd' ad' show ?thesis by blast
  qed
qed

lemma valid_refs_Nil: "valid_refs s []"
  by (simp add: valid_refs_def)

lemma contents_Nil: "contents s [] = []"
  by (simp add: contents_def)

lemma defaults_of_contents:
  "(case map_of refs lt of None \<Rightarrow> [] | Some a \<Rightarrow> deref s a) = defaults_of (contents s refs) lt"
  by (simp add: defaults_of_def map_of_contents split: option.splits)

lemma assemble_st_empty:
  assumes "valid_refs s qbc"
  shows "\<exists>res ext. assemble_st qbc [] cats s = (res, s @ ext)
           \<and> contents (s @ ext) res = assemble (contents s qbc) [] cats
           \<and> snd ` set res \<subseteq> {length s ..< length (s @ ext)}"
  using assemble_st_eq [OF assms valid_refs_Nil, of cats]
  by (simp add: contents_Nil) blast

lemma generate_questions_st_eq:
  assumes ltc: "valid_refs s (ltc_refs m)" and qbc: "valid_refs s (qbc_refs m)"
  shows "\<exists>res ext. generate_questions_st m s \<lparr>legacy_type = Some lt, scoping_details = sd\<rparr>
             = Inr (res, s @ ext)
           \<and> Inr (contents (s @ ext) res) =
               generate_questions_with (contents s (ltc_refs m)) (ttc_tab m) (contents s (qbc_refs m))
                 \<lparr>legacy_type = Some lt, scoping_details = sd\<rparr>
           \<and> snd ` set res \<subseteq> {length s ..< length (s @ ext)}"
proof -
  define cats where
    "cats = select_categories (contents s (ltc_refs m)) (ttc_tab m) lt sd"
  define scoping where "scoping = (case sd of None \<Rightarrow> [] | Some items \<Rightarrow> items)"
  define ds where "ds = defaults_of (contents s (ltc_refs m)) lt"
  define scanned where "scanned = scan_scoping (ttc_tab m) ds scoping"
  have cats_eq: "cats = (if closing_category \<notin> set scanned then scanned @ [closing_category]
                         else scanned)"
    by (simp add: cats_def select_categories_def Let_def scanned_def ds_def scoping_def
        defaults_of_def)
  let ?s3 = "s @ [cats]"
  have scan: "scan_scoping_st (ttc_tab m) (length s) scoping (s @ [ds]) = s @ [scanned]"
    by (simp add: scan_scoping_st_eq scanned_def)
  have run: "generate_questions_st m s \<lparr>legacy_type = Some lt, scoping_details = sd\<rparr> =
             Inr (assemble_st (qbc_refs m) [] cats ?s3)"
    by (simp add: generate_questions_st_def new_list_def defaults_of_contents ds_def [symmetric]
        scoping_def [symmetric] scan Let_def deref_def list_append_def cats_eq)
  have v: "valid_refs ?s3 (qbc_refs m)" using qbc by (rule valid_refs_append)
  from assemble_st_empty [OF v, of cats] obtain res ext where
    st: "assemble_st (qbc_refs m) [] cats ?s3 = (res, ?s3 @ ext)" and
    ct: "contents (?s3 @ ext) res = assemble (contents ?s3 (qbc_refs m)) [] cats" and
    ad: "snd ` set res \<subseteq> {length ?s3 ..< length (?s3 @ ext)}"
    by (elim exE conjE) (rule that)
  have c: "contents ?s3 (qbc_refs m) = contents s (qbc_refs m)"
    using qbc by (rule contents_append)
  have 1: "generate_questions_st m s \<lparr>legacy_type = Some lt, scoping_details = sd\<rparr> =
           Inr (res, s @ (cats # ext))"
    using run st by simp
  have 2: "Inr (contents (s @ (cats # ext)) res) =
           generate_questions_with (contents s (ltc_refs m)) (ttc_tab m) (contents s (qbc_refs m))
             \<lparr>legacy_type = Some lt, scoping_details = sd\<rparr>"
  proof -
    have "contents (s @ (cats # ext)) res = assemble (contents s (qbc_refs m)) [] cats"
      using ct by (simp add: c)
    then show ?thesis by (simp add: generate_questions_with_def cats_def)
  qed
  have 3: "snd ` set res \<subseteq> {length s ..< length (s @ (cats # ext))}"
    using ad by auto
  show ?thesis
    by (rule exI [of _ res], rule exI [of _ "cats # ext"], intro conjI, rule 1, rule 2, rule 3)
qed

lemma module_loaded_append: "module_loaded m s \<Longrightarrow> module_loaded m (s @ ext)"
  by (simp add: module_loaded_def valid_refs_append contents_append)

lemma module_loaded_update:
  assumes "module_loaded m s" and "length s \<le> a"
  shows "module_loaded m ((s @ ext)[a := xs])"
proof -
  have "(s @ ext)[a := xs] = s @ ext[a - length s := xs]"
    using assms(2) by (simp add: list_update_append)
  then show ?thesis using assms(1) by (simp only: module_loaded_append)
qed

lemma store_lists_eq:
  "\<exists>refs. store_lists tbl s = (refs, s @ map snd tbl)
      \<and> contents (s @ map snd tbl) refs = tbl \<and> valid_refs (s @ map snd tbl) refs"
proof (induction tbl arbitrary: s)
  case Nil
  show ?case by (simp add: contents_def valid_refs_def)
next
  case (Cons kv tbl)
  obtain k xs where kv: "kv = (k, xs)" by (cases kv)
  from Cons [of "s @ [xs]"] obtain refs where
    st: "store_lists tbl (s @ [xs]) = (refs, (s @ [xs]) @ map snd tbl)" and
    ct: "contents ((s @ [xs]) @ map snd tbl) refs = tbl" and
    vd: "valid_refs ((s @ [xs]) @ map snd tbl) refs"
    by blast
  have "store_lists (kv # tbl) s = ((k, length s) # refs, s @ map snd (kv # tbl))"
    using st by (simp add: kv new_list_def)
  moreover have "contents (s @ map snd (kv # tbl)) ((k, length s) # refs) = kv # tbl"
    using ct by (simp add: kv contents_def deref_def)
  moreover have "valid_refs (s @ map snd (kv # tbl)) ((k, length s) # refs)"
    using vd by (simp add: kv valid_refs_def)
  ultimately show ?case by blast
qed

lemma import_module_loaded: "module_loaded (fst import_module) (snd import_module)"
proof -
  from store_lists_eq [of QUESTIONS_BY_CATEGORY "[]"] obtain qbc where
    q: "store_lists QUESTIONS_BY_CATEGORY [] = (qbc, [] @ map snd QUESTIONS_BY_CATEGORY)"
       "contents ([] @ map snd QUESTIONS_BY_CATEGORY) qbc = QUESTIONS_BY_CATEGORY"
       "valid_refs ([] @ map snd QUESTIONS_BY_CATEGORY) qbc"
    by blast
  let ?s1 = "[] @ map snd QUESTIONS_BY_CATEGORY"
  from store_lists_eq [of LEGACY_TYPE_CATEGORIES ?s1] obtain ltc where
    l: "store_lists LEGACY_TYPE_CATEGORIES ?s1 = (ltc, ?s1 @ map snd LEGACY_TYPE_CATEGORIES)"
       "contents (?s1 @ map snd LEGACY_TYPE_CATEGORIES) ltc = LEGACY_TYPE_CATEGORIES"
       "valid_refs (?s1 @ map snd LEGACY_TYPE_CATEGORIES) ltc"
    by blast
  have im: "import_module =
      (\<lparr>ltc_refs = ltc, ttc_tab = THEME_TO_CATEGORY, qbc_refs = qbc\<rparr>,
       ?s1 @ map snd LEGACY_TYPE_CATEGORIES)"
    using q(1) l(1) by (simp add: import_module_def)
  have "contents (?s1 @ map snd LEGACY_TYPE_CATEGORIES) qbc = QUESTIONS_BY_CATEGORY"
    using q(2) contents_append [OF q(3)] by simp
  moreover have "valid_refs (?s1 @ map snd LEGACY_TYPE_CATEGORIES) qbc"
    using q(3) by (rule valid_refs_append)
  ultimately show ?thesis using l(2,3) by (simp add: im module_loaded_def)
qed

lemma generate_questions_st_loaded:
  assumes "module_loaded m s"
  shows "\<exists>res ext. generate_questions_st m s \<lparr>legacy_type = Some lt, scoping_details = sd\<rparr>
             = Inr (res, s @ ext)
           \<and> Inr (contents (s @ ext) res) =
               generate_questions \<lparr>legacy_type = Some lt, scoping_details = sd\<rparr>
           \<and> snd ` set res \<subseteq> {length s ..< length (s @ ext)}"
proof -
  have v: "valid_refs s (ltc_refs m)" "valid_refs s (qbc_refs m)"
    using assms by (simp_all add: module_loaded_def)
  have t: "contents s (ltc_refs m) = LEGACY_TYPE_CATEGORIES" "ttc_tab m = THEME_TO_CATEGORY"
    "contents s (qbc_refs m) = QUESTIONS_BY_CATEGORY"
    using assms by (simp_all add: module_loaded_def)
  from generate_questions_st_eq [OF v, of lt sd] show ?thesis
    by (simp only: t generate_questions_def)
qed

lemma generate_questions_entries:
  assumes "generate_questions \<lparr>legacy_type = Some lt, scoping_details = sd\<rparr> = Inr result"
    and "(cat, qs) \<in> set result"
  shows "map_of QUESTIONS_BY_CATEGORY cat = Some qs \<and> qs \<noteq> []"
proof -
  let ?src = "defaults_of LEGACY_TYPE_CATEGORIES lt @
          theme_categories THEME_TO_CATEGORY sd @ [closing_category]"
  have "result = map (\<lambda>c. (c, lookup_questions QUESTIONS_BY_CATEGORY c)) (remdups_first ?src)"
    using assms(1) by (simp only: generate_questions_eq sum.inject)
  with assms(2) have mem: "cat \<in> set ?src" and qs: "qs = lookup_questions QUESTIONS_BY_CATEGORY cat"
    by auto
  from mem have "has_questions QUESTIONS_BY_CATEGORY cat" by (rule selected_has_questions)
  then show ?thesis
    by (auto simp: qs has_questions_def lookup_questions_def split: option.splits)
qed

lemma generate_questions_nonempty:
  assumes "generate_questions \<lparr>legacy_type = Some lt, scoping_details = sd\<rparr> = Inr result"
  shows "result \<noteq> []"
proof -
  let ?src = "defaults_of LEGACY_TYPE_CATEGORIES lt @
          theme_categories THEME_TO_CATEGORY sd @ [closing_category]"
  have "result = map (\<lambda>c. (c, lookup_questions QUESTIONS_BY_CATEGORY c)) (remdups_first ?src)"
    using assms(1) by (simp only: generate_questions_eq sum.inject)
  moreover have "closing_category \<in> set (remdups_first ?src)" by simp
  then have "remdups_first ?src \<noteq> []" by (rule member_not_Nil)
  ultimately show ?thesis by simp
qed

lemma contents_mem: "(k, a) \<in> set refs \<Longrightarrow> (k, deref s a) \<in> set (contents s refs)"
  by (force simp: contents_def)

lemma valid_refs_range:
  "snd ` set refs \<subseteq> {lo ..< length s} \<Longrightarrow> valid_refs s refs"
  by (fastforce simp: valid_refs_def list_all_iff)

lemma valid_refs_less: "valid_refs s refs \<Longrightarrow> (k, a) \<in> set refs \<Longrightarrow> a < length s"
  by (auto simp: valid_refs_def list_all_iff)

text \<open>
  Claim C5. After the import, a call returns for each category a list whose elements are
  those declared in \<^verbatim>\<open>QUESTIONS_BY_CATEGORY\<close> for that category, in the same order. The list
  is a new object, different from every list of the pool: overwriting it with any value
  leaves the pool as declared, and a following call returns the same lists as the first.
\<close>
theorem emitted_lists_are_fresh_copies:
  assumes "module_loaded m s"
  shows "\<exists>result s'.
      generate_questions_st m s \<lparr>legacy_type = Some lt, scoping_details = sd\<rparr> = Inr (result, s')
    \<and> Inr (contents s' result) = generate_questions \<lparr>legacy_type = Some lt, scoping_details = sd\<rparr>
    \<and> (\<forall>(cat, a) \<in> set result.
          map_of QUESTIONS_BY_CATEGORY cat = Some (deref s' a)
        \<and> length s \<le> a \<and> a \<notin> snd ` set (qbc_refs m)
        \<and> (\<forall>xs. contents (s'[a := xs]) (qbc_refs m) = QUESTIONS_BY_CATEGORY
              \<and> (\<exists>result2 s2.
                    generate_questions_st m (s'[a := xs])
                      \<lparr>legacy_type = Some lt, scoping_details = sd\<rparr> = Inr (result2, s2)
                  \<and> contents s2 result2 = contents s' result)))"
proof -
  let ?pd = "\<lparr>legacy_type = Some lt, scoping_details = sd\<rparr>"
  from generate_questions_st_loaded [OF assms, of lt sd] obtain result ext where
    run: "generate_questions_st m s ?pd = Inr (result, s @ ext)" and
    out: "Inr (contents (s @ ext) result) = generate_questions ?pd" and
    rng: "snd ` set result \<subseteq> {length s ..< length (s @ ext)}"
    by (elim exE conjE) (rule that)
  have each: "map_of QUESTIONS_BY_CATEGORY cat = Some (deref (s @ ext) a)
        \<and> length s \<le> a \<and> a \<notin> snd ` set (qbc_refs m)
        \<and> (\<forall>xs. contents ((s @ ext)[a := xs]) (qbc_refs m) = QUESTIONS_BY_CATEGORY
              \<and> (\<exists>result2 s2.
                    generate_questions_st m ((s @ ext)[a := xs]) ?pd = Inr (result2, s2)
                  \<and> contents s2 result2 = contents (s @ ext) result))"
    if mem: "(cat, a) \<in> set result" for cat a
  proof (intro conjI allI)
    from mem have "(cat, deref (s @ ext) a) \<in> set (contents (s @ ext) result)"
      by (rule contents_mem)
    with generate_questions_entries [OF out [symmetric]]
    show "map_of QUESTIONS_BY_CATEGORY cat = Some (deref (s @ ext) a)" by blast
  next
    from mem rng show le: "length s \<le> a" by force
    have "valid_refs s (qbc_refs m)" using assms by (simp add: module_loaded_def)
    then have "\<forall>(k, b) \<in> set (qbc_refs m). b < length s"
      by (simp add: valid_refs_def list_all_iff)
    with le show "a \<notin> snd ` set (qbc_refs m)" by force
  next
    fix xs
    from mem rng have le: "length s \<le> a" by force
    have loaded: "module_loaded m ((s @ ext)[a := xs])"
      using assms le by (rule module_loaded_update)
    then show "contents ((s @ ext)[a := xs]) (qbc_refs m) = QUESTIONS_BY_CATEGORY"
      by (simp add: module_loaded_def)
    from generate_questions_st_loaded [OF loaded, of lt sd] obtain result2 ext2 where
      run2: "generate_questions_st m ((s @ ext)[a := xs]) ?pd = Inr (result2, (s @ ext)[a := xs] @ ext2)" and
      out2: "Inr (contents ((s @ ext)[a := xs] @ ext2) result2) = generate_questions ?pd"
      by (elim exE conjE) (rule that)
    have "(Inr (contents ((s @ ext)[a := xs] @ ext2) result2) :: error + ordered_dict)
          = Inr (contents (s @ ext) result)"
      by (simp only: out out2)
    then have "contents ((s @ ext)[a := xs] @ ext2) result2 = contents (s @ ext) result"
      by (simp only: sum.inject)
    with run2 show "\<exists>result2 s2.
        generate_questions_st m ((s @ ext)[a := xs]) ?pd = Inr (result2, s2)
        \<and> contents s2 result2 = contents (s @ ext) result"
      by blast
  qed
  show ?thesis
    by (rule exI [of _ result], rule exI [of _ "s @ ext"], intro conjI, rule run, rule out)
       (use each in blast)
qed

lemma project_data_cases:
  obtains (missing) "legacy_type pd = None"
  | (present) lt where "pd = \<lparr>legacy_type = Some lt, scoping_details = scoping_details pd\<rparr>"
proof (cases "legacy_type pd")
  case None
  then show ?thesis by (rule missing)
next
  case (Some lt)
  then have "pd = \<lparr>legacy_type = Some lt, scoping_details = scoping_details pd\<rparr>" by simp
  then show ?thesis by (rule present)
qed

text \<open>
  Claim C4. With the tables as declared, what a call returns is the value of
  \<open>generate_questions\<close> on its argument alone, whatever else the store holds. A call leaves
  the tables as declared, so a second call with the same argument returns the same
  categories in the same order with the same question lists, and the lists of the first
  result are untouched by it.
\<close>
theorem generate_questions_deterministic:
  assumes "module_loaded m s"
  shows "output_of (generate_questions_st m s pd) = generate_questions pd
    \<and> (\<forall>result s1. generate_questions_st m s pd = Inr (result, s1) \<longrightarrow>
          module_loaded m s1
        \<and> (\<exists>result2 s2. generate_questions_st m s1 pd = Inr (result2, s2)
              \<and> contents s2 result2 = contents s1 result
              \<and> contents s2 result = contents s1 result))"
proof (cases pd rule: project_data_cases)
  case missing
  then show ?thesis
    by (simp add: generate_questions_st_def generate_questions_def generate_questions_with_def
        output_of_def)
next
  case (present lt)
  let ?pd = "\<lparr>legacy_type = Some lt, scoping_details = scoping_details pd\<rparr>"
  from generate_questions_st_loaded [OF assms, of lt "scoping_details pd"] obtain result ext where
    run: "generate_questions_st m s ?pd = Inr (result, s @ ext)" and
    out: "Inr (contents (s @ ext) result) = generate_questions ?pd" and
    rng: "snd ` set result \<subseteq> {length s ..< length (s @ ext)}"
    by (elim exE conjE) (rule that)
  have loaded: "module_loaded m (s @ ext)" using assms by (rule module_loaded_append)
  from generate_questions_st_loaded [OF loaded, of lt "scoping_details pd"] obtain result2 ext2 where
    run2: "generate_questions_st m (s @ ext) ?pd = Inr (result2, (s @ ext) @ ext2)" and
    out2: "Inr (contents ((s @ ext) @ ext2) result2) = generate_questions ?pd"
    by (elim exE conjE) (rule that)
  have "(Inr (contents ((s @ ext) @ ext2) result2) :: error + ordered_dict)
        = Inr (contents (s @ ext) result)"
    by (simp only: out out2)
  then have same: "contents ((s @ ext) @ ext2) result2 = contents (s @ ext) result"
    by (simp only: sum.inject)
  have kept: "contents ((s @ ext) @ ext2) result = contents (s @ ext) result"
    using rng by (intro contents_append valid_refs_range)
  have 1: "output_of (generate_questions_st m s ?pd) = generate_questions ?pd"
    using out by (simp add: run output_of_def)
  have 2: "module_loaded m s1
        \<and> (\<exists>result2 s2. generate_questions_st m s1 ?pd = Inr (result2, s2)
              \<and> contents s2 result2 = contents s1 result'
              \<and> contents s2 result' = contents s1 result')"
    if "generate_questions_st m s ?pd = Inr (result', s1)" for result' s1
  proof -
    from that run have eq: "result' = result" "s1 = s @ ext" by simp_all
    show ?thesis unfolding eq using loaded run2 same kept by blast
  qed
  from 1 2 show ?thesis unfolding present [symmetric] by blast
qed

theorem generate_questions_deterministic_witness:
  "module_loaded (fst import_module) (snd import_module)
   \<and> output_of (generate_questions_st (fst import_module) (snd import_module) example_scope)
       = generate_questions example_scope
   \<and> (\<exists>result s1 result2 s2.
         generate_questions_st (fst import_module) (snd import_module) example_scope = Inr (result, s1)
       \<and> generate_questions_st (fst import_module) s1 example_scope = Inr (result2, s2)
       \<and> contents s2 result2 = contents s1 result)"
proof -
  let ?m = "fst import_module" and ?s = "snd import_module"
  note det = generate_questions_deterministic [OF import_module_loaded, of example_scope]
  from generate_questions_st_loaded [OF import_module_loaded, of "''Words of Wisdom''"
      "scoping_details example_scope"]
  obtain result ext where
    run: "generate_questions_st ?m ?s example_scope = Inr (result, ?s @ ext)"
    by (auto simp: example_scope_def)
  from det run have "\<exists>result2 s2. generate_questions_st ?m (?s @ ext) example_scope = Inr (result2, s2)
      \<and> contents s2 result2 = contents (?s @ ext) result"
    by blast
  with run det import_module_loaded show ?thesis by blast
qed

theorem emitted_lists_are_fresh_copies_witness:
  "module_loaded (fst import_module) (snd import_module)
   \<and> (\<exists>result s' cat a.
         generate_questions_st (fst import_module) (snd import_module)
           \<lparr>legacy_type = Some ''Words of Wisdom'', scoping_details = None\<rparr> = Inr (result, s')
       \<and> (cat, a) \<in> set result
       \<and> map_of QUESTIONS_BY_CATEGORY cat = Some (deref s' a)
       \<and> length (snd import_module) \<le> a
       \<and> contents (s'[a := [''edited'']]) (qbc_refs (fst import_module)) = QUESTIONS_BY_CATEGORY
       \<and> (\<exists>result2 s2.
             generate_questions_st (fst import_module) (s'[a := [''edited'']])
               \<lparr>legacy_type = Some ''Words of Wisdom'', scoping_details = None\<rparr> = Inr (result2, s2)
           \<and> contents s2 result2 = contents s' result))"
proof -
  let ?m = "fst import_module" and ?s = "snd import_module"
  let ?pd = "\<lparr>legacy_type = Some ''Words of Wisdom'', scoping_details = None\<rparr>"
  from emitted_lists_are_fresh_copies [OF import_module_loaded, of "''Words of Wisdom''" None]
  obtain result s' where
    run: "generate_questions_st ?m ?s ?pd = Inr (result, s')" and
    out: "Inr (contents s' result) = generate_questions ?pd" and
    each: "\<forall>(cat, a) \<in> set result.
          map_of QUESTIONS_BY_CATEGORY cat = Some (deref s' a)
        \<and> length ?s \<le> a \<and> a \<notin> snd ` set (qbc_refs ?m)
        \<and> (\<forall>xs. contents (s'[a := xs]) (qbc_refs ?m) = QUESTIONS_BY_CATEGORY
              \<and> (\<exists>result2 s2. generate_questions_st ?m (s'[a := xs]) ?pd = Inr (result2, s2)
                  \<and> contents s2 result2 = contents s' result))"
    by (elim exE conjE) (rule that)
  have "contents s' result \<noteq> []"
    using out [symmetric] by (rule generate_questions_nonempty)
  then have "result \<noteq> []" by (auto simp: contents_def)
  then obtain cat a where mem: "(cat, a) \<in> set result"
    by (cases result) auto
  with each have
    "map_of QUESTIONS_BY_CATEGORY cat = Some (deref s' a)
        \<and> length ?s \<le> a \<and> a \<notin> snd ` set (qbc_refs ?m)
        \<and> (\<forall>xs. contents (s'[a := xs]) (qbc_refs ?m) = QUESTIONS_BY_CATEGORY
              \<and> (\<exists>result2 s2. generate_questions_st ?m (s'[a := xs]) ?pd = Inr (result2, s2)
                  \<and> contents s2 result2 = contents s' result))"
    by blast
  with run mem import_module_loaded show ?thesis by blast
qed

end
